theory Spec2Isabelle
  imports Main "HOL-Library.Word" "HOL-Library.Char_ord" "HOL-Library.List_Lexorder"
begin

section \<open>OAuth 2.1 authorization-code flow with PKCE: the auth demo\<close>

text \<open>
  The development follows the sources of the auth demo: \<open>shared/pkce.ts\<close>,
  \<open>shared/scopes.ts\<close>, \<open>shared/jwt.ts\<close>, \<open>auth-server/store.ts\<close>,
  \<open>auth-server/oauth.ts\<close>, \<open>auth-server/server.ts\<close>,
  \<open>auth-server/client-metadata.ts\<close>, \<open>app/mcp/auth.ts\<close> and \<open>app/mcp/route.ts\<close>.

  JavaScript strings are modelled as \<open>string\<close>, a list of code points below 256
  (one \<open>char\<close> per UTF-16 code unit). Functions of the platform that the sources call
  (SHA-256, the JWT library, the URL parser) are parameters of the model or are written
  out where a claim needs their result on a concrete input.
\<close>

subsection \<open>JavaScript strings\<close>

type_synonym byte = "8 word"

datatype js_error = RangeError | TypeError | Error string

text \<open>\<open>Buffer.from(s)\<close>: the UTF-8 encoding of the string.\<close>

definition utf8_char :: "char \<Rightarrow> byte list" where
  "utf8_char c =
     (let n = (of_char c :: nat)
      in if n < 128 then [of_nat n]
         else [of_nat (192 + n div 64), of_nat (128 + n mod 64)])"

definition Buffer_from :: "string \<Rightarrow> byte list" where
  "Buffer_from s = concat (map utf8_char s)"

text \<open>
  White space as \<open>\s\<close> and \<open>String.prototype.trim\<close> see it, among the code points
  below 256: TAB, LF, VT, FF, CR, SPACE and NBSP.
\<close>

definition is_space :: "char \<Rightarrow> bool" where
  "is_space c = ((of_char c :: nat) \<in> {9, 10, 11, 12, 13, 32, 160})"

definition trim :: "string \<Rightarrow> string" where
  "trim s = rev (dropWhile is_space (rev (dropWhile is_space s)))"

text \<open>
  \<open>s.split(/\s+/)\<close>: the pieces between maximal runs of white space; a run at either
  end leaves an empty piece there, and the empty string splits into one empty piece.
\<close>

function split_ws_acc :: "string \<Rightarrow> string \<Rightarrow> string list" where
  "split_ws_acc acc [] = [rev acc]"
| "split_ws_acc acc (c # cs) =
     (if is_space c then rev acc # split_ws_acc [] (dropWhile is_space cs)
      else split_ws_acc (c # acc) cs)"
  by pat_completeness auto
termination
  by (relation "measure (\<lambda>(acc, s). length s)") (auto simp: less_Suc_eq_le length_dropWhile_le)

definition split_ws :: "string \<Rightarrow> string list" where
  "split_ws s = split_ws_acc [] s"

text \<open>\<open>xs.join(sep)\<close>.\<close>

fun join :: "string \<Rightarrow> string list \<Rightarrow> string" where
  "join sep [] = []"
| "join sep [x] = x"
| "join sep (x # y # ys) = x @ sep @ join sep (y # ys)"

subsection \<open>PKCE (\<open>shared/pkce.ts\<close>)\<close>

definition alnum62 :: string where
  "alnum62 = ''ABCDEFGHIJKLMNOPQRSTUVWXYZabcdefghijklmnopqrstuvwxyz0123456789''"

definition b64_alphabet :: string where
  "b64_alphabet = alnum62 @ ''+/''"


definition b64_digit :: "nat \<Rightarrow> char" where
  "b64_digit n = b64_alphabet ! (n mod 64)"

text \<open>\<open>buf.toString("base64")\<close>: the standard alphabet, padded with \<open>=\<close>.\<close>

fun base64 :: "byte list \<Rightarrow> string" where
  "base64 [] = []"
| "base64 [a] =
     [b64_digit (unat a div 4), b64_digit ((unat a mod 4) * 16), CHR ''='', CHR ''='']"
| "base64 [a, b] =
     [b64_digit (unat a div 4), b64_digit ((unat a mod 4) * 16 + unat b div 16),
      b64_digit ((unat b mod 16) * 4), CHR ''='']"
| "base64 (a # b # c # rest) =
     [b64_digit (unat a div 4), b64_digit ((unat a mod 4) * 16 + unat b div 16),
      b64_digit ((unat b mod 16) * 4 + unat c div 64), b64_digit (unat c mod 64)]
     @ base64 rest"

definition replace_char :: "char \<Rightarrow> char \<Rightarrow> string \<Rightarrow> string" where
  "replace_char a b s = map (\<lambda>c. if c = a then b else c) s"

definition strip_trailing_eq :: "string \<Rightarrow> string" where
  "strip_trailing_eq s = rev (dropWhile (\<lambda>c. c = CHR ''='') (rev s))"

definition base64urlEncode :: "byte list \<Rightarrow> string" where
  "base64urlEncode input =
     strip_trailing_eq (replace_char CHR ''/'' CHR ''_'' (replace_char CHR ''+'' CHR ''-'' (base64 input)))"

text \<open>
  \<open>sha256(input)\<close> is \<open>crypto.createHash("sha256").update(input).digest()\<close>: the
  digest function of the platform, here the parameter \<open>H\<close>, applied to the UTF-8
  bytes of the string.
\<close>

definition sha256 :: "(byte list \<Rightarrow> byte list) \<Rightarrow> string \<Rightarrow> byte list" where
  "sha256 H input = H (Buffer_from input)"

definition computeS256CodeChallenge :: "(byte list \<Rightarrow> byte list) \<Rightarrow> string \<Rightarrow> string" where
  "computeS256CodeChallenge H codeVerifier = base64urlEncode (sha256 H codeVerifier)"

text \<open>
  \<open>crypto.timingSafeEqual(a, b)\<close> throws a RangeError when the two buffers differ in
  length, and compares them otherwise.
\<close>

definition timingSafeEqual :: "byte list \<Rightarrow> byte list \<Rightarrow> js_error + bool" where
  "timingSafeEqual a b = (if length a \<noteq> length b then Inl RangeError else Inr (a = b))"

definition constantTimeEqual :: "string \<Rightarrow> string \<Rightarrow> js_error + bool" where
  "constantTimeEqual a b =
     (let aBuf = Buffer_from a; bBuf = Buffer_from b
      in if length aBuf \<noteq> length bBuf then Inr False
         else timingSafeEqual aBuf bBuf)"

subsection \<open>Values of unknown shape\<close>

text \<open>
  A value whose type the sources give as \<open>unknown\<close> or \<open>any\<close> (a parsed JSON body, a
  query parameter, a token payload). An object is a list of its own properties;
  \<open>undefined\<close> is the absence of a value (\<open>None\<close>).
\<close>

datatype json = JNull | JBool bool | JNum int | JStr string | JArr "json list"
  | JObj "(string \<times> json) list"

text \<open>\<open>v.k\<close> and \<open>v?.k\<close> for a property \<open>k\<close> that only an object can have of its own.\<close>

fun prop_of :: "json option \<Rightarrow> string \<Rightarrow> json option" where
  "prop_of (Some (JObj kvs)) k = map_of kvs k"
| "prop_of _ k = None"

text \<open>Truthiness of a parsed JSON value.\<close>

fun truthy :: "json \<Rightarrow> bool" where
  "truthy JNull = False"
| "truthy (JBool b) = b"
| "truthy (JNum n) = (n \<noteq> 0)"
| "truthy (JStr s) = (s \<noteq> [])"
| "truthy (JArr xs) = True"
| "truthy (JObj kvs) = True"

subsection \<open>Scopes (\<open>shared/scopes.ts\<close>)\<close>

definition SCOPES_SUPPORTED :: "string list" where
  "SCOPES_SUPPORTED = [''profile:read'', ''notes:read'', ''notes:write'']"

text \<open>\<open>.filter(Boolean)\<close> on strings keeps the non-empty ones.\<close>

definition filter_Boolean :: "string list \<Rightarrow> string list" where
  "filter_Boolean xs = filter (\<lambda>s. s \<noteq> []) xs"

definition parseScopeParam :: "string option \<Rightarrow> string list" where
  "parseScopeParam scope =
     filter_Boolean (map trim (split_ws (case scope of None \<Rightarrow> [] | Some s \<Rightarrow> s)))"

text \<open>
  A \<open>Set\<close> of strings is the list of its members in insertion order:
  \<open>new Set(xs)\<close> keeps the first occurrence of each member, \<open>has\<close> is membership.
\<close>

definition Set_of :: "string list \<Rightarrow> string list" where
  "Set_of xs = rev (remdups (rev xs))"

definition has :: "string list \<Rightarrow> string \<Rightarrow> bool" where
  "has S x = (x \<in> set S)"

text \<open>
  \<open>Array.prototype.sort()\<close> without a comparator orders strings by their code units:
  the lexicographic order of \<open>string\<close>.
\<close>

definition normalizeScopes :: "string list \<Rightarrow> string list" where
  "normalizeScopes scopes = sort (Set_of (filter_Boolean scopes))"

definition formatScopeParam :: "string list \<Rightarrow> string" where
  "formatScopeParam scopes = join '' '' (normalizeScopes scopes)"

definition isSubsetOfSupportedScopes :: "string list \<Rightarrow> bool" where
  "isSubsetOfSupportedScopes requestedScopes =
     (let supported = Set_of SCOPES_SUPPORTED
      in list_all (\<lambda>s. has supported s) requestedScopes)"

definition scopeClaimToSet :: "json option \<Rightarrow> string list" where
  "scopeClaimToSet scopeClaim =
     (case scopeClaim of
        Some (JStr s) \<Rightarrow> Set_of (parseScopeParam (Some s))
      | _ \<Rightarrow> Set_of [])"


subsection \<open>The stores (\<open>auth-server/store.ts\<close>) and the configuration\<close>

record OAuthClient =
  client_id :: string
  client_name :: string
  redirect_uris :: "string list"
  token_endpoint_auth_method :: string
  created_at :: int

record AuthCodeRecord =
  rec_code :: string
  rec_client_id :: string
  rec_redirect_uri :: string
  rec_resource :: string
  rec_scope :: string
  rec_code_challenge :: string
  rec_code_challenge_method :: string
  rec_user_id :: string
  rec_user_name :: "string option"
  rec_created_at :: int
  rec_expires_at :: int
  used :: bool

record DemoUser =
  user_id :: string
  username :: string
  password :: string
  displayName :: string

text \<open>The module-level maps \<open>clientsById\<close> and \<open>authCodesByCode\<close>.\<close>

record store =
  clientsById :: "string \<rightharpoonup> OAuthClient"
  authCodesByCode :: "string \<rightharpoonup> AuthCodeRecord"

record AuthServerConfig =
  authPort :: int
  issuer :: string
  mcpResource :: string
  jwtSecret :: string
  accessTokenTtlSec :: int
  authCodeTtlSec :: int
  allowedRedirectUris :: "string list"
  allowedClientMetadataHosts :: "string list"

text \<open>
  \<open>createClient\<close>: \<open>fresh_id\<close> is the identifier \<open>c_\<close> followed by a UUID that
  \<open>crypto.randomUUID\<close> yields when the caller gives none, \<open>now\<close> is \<open>Date.now()\<close>.
\<close>

definition createClient ::
  "string \<Rightarrow> int \<Rightarrow> string option \<Rightarrow> string \<Rightarrow> string list \<Rightarrow> string \<Rightarrow> store \<Rightarrow> OAuthClient \<times> store"
where
  "createClient fresh_id now p_client_id p_client_name p_redirect_uris p_auth_method st =
     (let cid = (case p_client_id of None \<Rightarrow> fresh_id | Some c \<Rightarrow> c);
          existing = clientsById st cid;
          client = \<lparr>client_id = cid, client_name = p_client_name,
                    redirect_uris = p_redirect_uris,
                    token_endpoint_auth_method = p_auth_method,
                    created_at = (case existing of None \<Rightarrow> now | Some e \<Rightarrow> created_at e)\<rparr>
      in (client, st\<lparr>clientsById := (clientsById st)(cid \<mapsto> client)\<rparr>))"

definition findClient :: "store \<Rightarrow> string \<Rightarrow> OAuthClient option" where
  "findClient st cid = clientsById st cid"

definition saveAuthCode :: "AuthCodeRecord \<Rightarrow> store \<Rightarrow> store" where
  "saveAuthCode record st = st\<lparr>authCodesByCode := (authCodesByCode st)(rec_code record \<mapsto> record)\<rparr>"

definition findAuthCode :: "store \<Rightarrow> string \<Rightarrow> AuthCodeRecord option" where
  "findAuthCode st code = authCodesByCode st code"

definition markAuthCodeUsed :: "string \<Rightarrow> store \<Rightarrow> store" where
  "markAuthCodeUsed code st =
     (case authCodesByCode st code of
        None \<Rightarrow> st
      | Some rec \<Rightarrow> st\<lparr>authCodesByCode := (authCodesByCode st)(code \<mapsto> rec\<lparr>used := True\<rparr>)\<rparr>)"

subsection \<open>Access tokens (\<open>shared/jwt.ts\<close>)\<close>

text \<open>
  The functions of the \<open>jsonwebtoken\<close> package and of the clock that the token code
  calls: \<open>jwt_sign\<close> is \<open>jwt.sign(claims, secret, {algorithm: "HS256"})\<close>; a compact
  token is read by \<open>jws_decode\<close> into its header algorithm, its payload, the bytes that
  were signed and its signature (\<open>None\<close> for a malformed token); \<open>hmac_sha256\<close> is
  the HS256 signature of those bytes under a secret.
\<close>

record jws =
  jws_alg :: string
  jws_payload :: json
  jws_signing_input :: string
  jws_signature :: "byte list"

record jwt_lib =
  jwt_sign :: "json \<Rightarrow> string \<Rightarrow> string"
  jws_decode :: "string \<rightharpoonup> jws"
  hmac_sha256 :: "string \<Rightarrow> string \<Rightarrow> byte list"

record AccessTokenClaims =
  claim_iss :: string
  claim_sub :: string
  claim_aud :: json
  claim_scope :: string
  claim_name :: "json option"
  claim_payload :: json

record signed_token =
  sg_token :: string
  sg_expiresIn :: int
  sg_claims :: json

text \<open>\<open>now\<close> is \<open>Date.now()\<close>, in milliseconds.\<close>

definition signAccessToken ::
  "jwt_lib \<Rightarrow> int \<Rightarrow> string \<Rightarrow> string \<Rightarrow> string \<Rightarrow> string \<Rightarrow> string option \<Rightarrow> string \<Rightarrow> int
     \<Rightarrow> signed_token"
where
  "signAccessToken lib now p_issuer p_subject p_audience p_scope p_name p_secret p_ttlSec =
     (let nowSec = now div 1000;
          exp = nowSec + p_ttlSec;
          cl = JObj ([(''iss'', JStr p_issuer), (''sub'', JStr p_subject),
                      (''aud'', JStr p_audience), (''iat'', JNum nowSec), (''exp'', JNum exp),
                      (''scope'', JStr p_scope)]
                     @ (case p_name of
                          None \<Rightarrow> []
                        | Some n \<Rightarrow> if n \<noteq> [] then [(''name'', JStr n)] else []))
      in \<lparr>sg_token = jwt_sign lib cl p_secret, sg_expiresIn = p_ttlSec, sg_claims = cl\<rparr>)"

text \<open>
  Modelled from the spec: \<open>jwt.verify\<close> of the \<open>jsonwebtoken\<close> package, which
  \<open>verifyAccessToken\<close> calls with the options \<open>{algorithms, issuer, audience}\<close>, is
  not among the sources. Section 4.3 of the specification says what verification must
  enforce, and the comment in \<open>verifyAccessToken\<close> (\<open>jwt.verify already checked
  exp/iss/aud\<close>) says that this call does it: the token is well formed, its signature is
  valid under the secret for one of the algorithms, \<open>exp\<close> has not elapsed, \<open>aud\<close>
  (one string, or an array of strings) holds the audience, and \<open>iss\<close> is the issuer.
  Each failure throws; otherwise the payload is returned. \<open>nowSec\<close> is the clock in
  seconds; a payload without \<open>exp\<close> does not expire.
\<close>

definition exp_not_elapsed :: "int \<Rightarrow> json \<Rightarrow> bool" where
  "exp_not_elapsed nowSec pl =
     (case prop_of (Some pl) ''exp'' of
        None \<Rightarrow> True
      | Some (JNum e) \<Rightarrow> nowSec < e
      | Some _ \<Rightarrow> False)"

definition aud_matches :: "string \<Rightarrow> json \<Rightarrow> bool" where
  "aud_matches audience pl =
     (case prop_of (Some pl) ''aud'' of
        Some (JArr xs) \<Rightarrow> JStr audience \<in> set xs
      | Some v \<Rightarrow> v = JStr audience
      | None \<Rightarrow> False)"

definition jwt_verify ::
  "jwt_lib \<Rightarrow> int \<Rightarrow> string \<Rightarrow> string \<Rightarrow> string list \<Rightarrow> string \<Rightarrow> string \<Rightarrow> js_error + json"
where
  "jwt_verify lib nowSec tok secret algorithms opt_issuer opt_audience =
     (case jws_decode lib tok of
        None \<Rightarrow> Inl (Error ''jwt malformed'')
      | Some d \<Rightarrow>
          if jws_alg d \<notin> set algorithms then Inl (Error ''invalid algorithm'')
          else if jws_signature d \<noteq> hmac_sha256 lib secret (jws_signing_input d)
            then Inl (Error ''invalid signature'')
          else if \<not> exp_not_elapsed nowSec (jws_payload d) then Inl (Error ''jwt expired'')
          else if \<not> aud_matches opt_audience (jws_payload d)
            then Inl (Error ''jwt audience invalid'')
          else if prop_of (Some (jws_payload d)) ''iss'' \<noteq> Some (JStr opt_issuer)
            then Inl (Error ''jwt issuer invalid'')
          else Inr (jws_payload d))"

record verify_params =
  vp_secret :: string
  vp_issuer :: string
  vp_audience :: string

text \<open>\<open>typeof v === "string"\<close>.\<close>

definition is_string :: "json \<Rightarrow> bool" where
  "is_string v = (case v of JStr s \<Rightarrow> True | _ \<Rightarrow> False)"

definition verifyAccessToken ::
  "jwt_lib \<Rightarrow> int \<Rightarrow> string \<Rightarrow> verify_params \<Rightarrow> js_error + AccessTokenClaims"
where
  "verifyAccessToken lib nowSec tok params =
     (case jwt_verify lib nowSec tok (vp_secret params) [''HS256''] (vp_issuer params)
             (vp_audience params) of
        Inl e \<Rightarrow> Inl e
      | Inr decoded \<Rightarrow>
          if \<not> truthy decoded \<or> is_string decoded then Inl (Error ''Invalid token payload'')
          else
            (case prop_of (Some decoded) ''sub'' of
               Some (JStr s) \<Rightarrow>
                 if length s = 0 then Inl (Error ''Token missing sub'')
                 else
                   (case prop_of (Some decoded) ''scope'' of
                      Some (JStr sc) \<Rightarrow>
                        (case prop_of (Some decoded) ''iss'' of
                           Some (JStr i) \<Rightarrow>
                             Inr \<lparr>claim_iss = i, claim_sub = s,
                                  claim_aud = (case prop_of (Some decoded) ''aud'' of
                                                 Some a \<Rightarrow> a | None \<Rightarrow> JNull),
                                  claim_scope = sc,
                                  claim_name = prop_of (Some decoded) ''name'',
                                  claim_payload = decoded\<rparr>
                         | _ \<Rightarrow> Inl (Error ''Token missing iss''))
                    | _ \<Rightarrow> Inl (Error ''Token missing scope''))
             | _ \<Rightarrow> Inl (Error ''Token missing sub'')))"

subsection \<open>Authorization requests and code redemption (\<open>auth-server/oauth.ts\<close>)\<close>

datatype oauth_error_code = invalid_request | unauthorized_client | invalid_grant

record OAuthError =
  error :: oauth_error_code
  error_description :: "string option"

definition oauth_err :: "oauth_error_code \<Rightarrow> string \<Rightarrow> OAuthError" where
  "oauth_err c d = \<lparr>error = c, error_description = Some d\<rparr>"

fun firstString :: "json option \<Rightarrow> string option" where
  "firstString (Some (JStr s)) = Some s"
| "firstString (Some (JArr (JStr s # vs))) = Some s"
| "firstString _ = None"

text \<open>
  In \<open>validateAuthorizeRequest\<close>, \<open>!v\<close> holds of a parameter that is \<open>undefined\<close>
  or the empty string.
\<close>

record ValidatedAuthorizeRequest =
  req_response_type :: string
  req_client_id :: string
  req_redirect_uri :: string
  req_scope :: string
  req_state :: string
  req_code_challenge :: string
  req_code_challenge_method :: string
  req_resource :: string
  req_scopes :: "string list"

definition validateAuthorizeRequest ::
  "json \<Rightarrow> AuthServerConfig \<Rightarrow> OAuthClient option
     \<Rightarrow> OAuthError + (ValidatedAuthorizeRequest \<times> OAuthClient)"
where
  "validateAuthorizeRequest query config client =
     (let response_type = firstString (prop_of (Some query) ''response_type'');
          q_client_id = firstString (prop_of (Some query) ''client_id'');
          q_redirect_uri = firstString (prop_of (Some query) ''redirect_uri'');
          q_scope = (case firstString (prop_of (Some query) ''scope'') of
                       None \<Rightarrow> [] | Some s \<Rightarrow> s);
          q_state = (case firstString (prop_of (Some query) ''state'') of
                       None \<Rightarrow> [] | Some s \<Rightarrow> s);
          q_code_challenge = firstString (prop_of (Some query) ''code_challenge'');
          q_code_challenge_method = firstString (prop_of (Some query) ''code_challenge_method'');
          q_resource = firstString (prop_of (Some query) ''resource'')
      in if response_type \<noteq> Some ''code''
           then Inl (oauth_err invalid_request ''response_type must be code'')
         else
           (case (q_client_id, q_redirect_uri, q_code_challenge, q_code_challenge_method,
                  q_resource) of
              (Some cid, Some ruri, Some chal, Some meth, Some res) \<Rightarrow>
                if cid = [] \<or> ruri = [] \<or> chal = [] \<or> meth = [] \<or> res = []
                  then Inl (oauth_err invalid_request ''Missing required parameters'')
                else
                  (case client of
                     None \<Rightarrow> Inl (oauth_err unauthorized_client ''Unknown client_id'')
                   | Some cl \<Rightarrow>
                       if ruri \<notin> set (redirect_uris cl)
                         then Inl (oauth_err invalid_request
                                     ''redirect_uri not allowed for this client'')
                       else if meth \<noteq> ''S256''
                         then Inl (oauth_err invalid_request
                                     ''code_challenge_method must be S256'')
                       else if res \<noteq> mcpResource config
                         then Inl (oauth_err invalid_request ''resource must match MCP_RESOURCE'')
                       else
                         (let requestedScopes = normalizeScopes (parseScopeParam (Some q_scope))
                          in if length requestedScopes = 0
                               then Inl (oauth_err invalid_request ''scope is required'')
                             else if \<not> isSubsetOfSupportedScopes requestedScopes
                               then Inl (oauth_err invalid_request
                                           ''Requested scope is not supported'')
                             else Inr (\<lparr>req_response_type = ''code'',
                                         req_client_id = cid,
                                         req_redirect_uri = ruri,
                                         req_scope = join '' '' requestedScopes,
                                         req_state = q_state,
                                         req_code_challenge = chal,
                                         req_code_challenge_method = ''S256'',
                                         req_resource = res,
                                         req_scopes = requestedScopes\<rparr>, cl)))
            | _ \<Rightarrow> Inl (oauth_err invalid_request ''Missing required parameters'')))"

text \<open>\<open>fresh_code\<close> is the code \<open>ac_\<close> followed by a UUID, \<open>now\<close> is \<open>Date.now()\<close>.\<close>

definition issueAuthorizationCode ::
  "string \<Rightarrow> int \<Rightarrow> AuthServerConfig \<Rightarrow> ValidatedAuthorizeRequest \<Rightarrow> DemoUser \<Rightarrow> store
     \<Rightarrow> string \<times> store"
where
  "issueAuthorizationCode fresh_code now config request user st =
     (let record = \<lparr>rec_code = fresh_code,
                    rec_client_id = req_client_id request,
                    rec_redirect_uri = req_redirect_uri request,
                    rec_resource = req_resource request,
                    rec_scope = req_scope request,
                    rec_code_challenge = req_code_challenge request,
                    rec_code_challenge_method = ''S256'',
                    rec_user_id = user_id user,
                    rec_user_name = Some (displayName user),
                    rec_created_at = now,
                    rec_expires_at = now + authCodeTtlSec config * 1000,
                    used = False\<rparr>
      in (fresh_code, saveAuthCode record st))"

record redeem_params =
  p_code :: string
  p_client :: "OAuthClient option"
  p_client_id :: string
  p_redirect_uri :: string
  p_resource :: string
  p_code_verifier :: string

record token_response =
  access_token :: string
  token_type :: string
  expires_in :: int
  granted_scope :: string

text \<open>
  \<open>redeemAuthorizationCode\<close>: \<open>H\<close> is the SHA-256 digest, \<open>now\<close> is the
  \<open>Date.now()\<close> of the expiry check and \<open>now'\<close> the one \<open>signAccessToken\<close> reads.
  The result is the value returned with the store after the call, or the exception
  thrown.
\<close>

definition redeemAuthorizationCode ::
  "(byte list \<Rightarrow> byte list) \<Rightarrow> jwt_lib \<Rightarrow> int \<Rightarrow> int \<Rightarrow> AuthServerConfig \<Rightarrow> redeem_params \<Rightarrow> store
     \<Rightarrow> js_error + ((OAuthError + token_response) \<times> store)"
where
  "redeemAuthorizationCode H lib now now' config params st =
     (case p_client params of
        None \<Rightarrow> Inr (Inl (oauth_err unauthorized_client ''Unknown client_id''), st)
      | Some cl \<Rightarrow>
          (case findAuthCode st (p_code params) of
             None \<Rightarrow> Inr (Inl (oauth_err invalid_grant ''Unknown code''), st)
           | Some rec \<Rightarrow>
               if used rec \<or> rec_expires_at rec \<le> now
                 then Inr (Inl (oauth_err invalid_grant ''Code expired or already used''), st)
               else if rec_client_id rec \<noteq> p_client_id params
                 then Inr (Inl (oauth_err invalid_grant ''client_id mismatch''), st)
               else if rec_redirect_uri rec \<noteq> p_redirect_uri params
                 then Inr (Inl (oauth_err invalid_grant ''redirect_uri mismatch''), st)
               else if rec_resource rec \<noteq> p_resource params
                       \<or> p_resource params \<noteq> mcpResource config
                 then Inr (Inl (oauth_err invalid_request ''resource mismatch''), st)
               else
                 (let computed = computeS256CodeChallenge H (p_code_verifier params)
                  in case constantTimeEqual computed (rec_code_challenge rec) of
                       Inl e \<Rightarrow> Inl e
                     | Inr eq \<Rightarrow>
                         if \<not> eq
                           then Inr (Inl (oauth_err invalid_request ''PKCE verification failed''), st)
                         else
                           (let st' = markAuthCodeUsed (p_code params) st;
                                signed = signAccessToken lib now' (issuer config)
                                           (rec_user_id rec) (rec_resource rec) (rec_scope rec)
                                           (rec_user_name rec) (jwtSecret config)
                                           (accessTokenTtlSec config)
                            in Inr (Inr \<lparr>access_token = sg_token signed,
                                         token_type = ''Bearer'',
                                         expires_in = sg_expiresIn signed,
                                         granted_scope = rec_scope rec\<rparr>, st')))))"

subsection \<open>The resource server's guard (\<open>app/mcp/auth.ts\<close>, \<open>app/mcp/route.ts\<close>)\<close>

record VerifiedAuthContext =
  ctx_token :: string
  ctx_claims :: AccessTokenClaims
  ctx_sub :: string
  ctx_name :: "string option"
  ctx_scopes :: "string list"

text \<open>\<open>process.env\<close> is a map from names to strings.\<close>

definition requiredEnv :: "(string \<rightharpoonup> string) \<Rightarrow> string \<Rightarrow> js_error + string" where
  "requiredEnv env nm =
     (case env nm of
        None \<Rightarrow> Inl (Error (''Missing env var: '' @ nm))
      | Some v \<Rightarrow>
          if v = [] \<or> length (trim v) = 0 then Inl (Error (''Missing env var: '' @ nm))
          else Inr (trim v))"

datatype ToolPolicy = Public | Required "string list" | Optional "string list"


text \<open>The table of policies is a parameter; the demo's table is \<open>TOOL_POLICIES\<close>.\<close>

definition getToolPolicy :: "(string \<times> ToolPolicy) list \<Rightarrow> string option \<Rightarrow> ToolPolicy option" where
  "getToolPolicy policies toolName =
     (case toolName of
        None \<Rightarrow> None
      | Some n \<Rightarrow> if n = [] then None else map_of policies n)"

text \<open>
  The match of \<open>/^Bearer\s+(.+)$/i\<close> and its first group. The letters match in either
  case; \<open>\s+\<close> takes a run of white space, the longest first; \<open>(.+)$\<close> then has to take
  all that is left, which must be non-empty and free of line terminators (the \<open>.\<close> of
  a regular expression matches neither LF nor CR).
\<close>

definition ascii_upper :: "char \<Rightarrow> char" where
  "ascii_upper c =
     (let n = (of_char c :: nat) in if 97 \<le> n \<and> n \<le> 122 then char_of (n - 32) else c)"

definition is_line_terminator :: "char \<Rightarrow> bool" where
  "is_line_terminator c = ((of_char c :: nat) \<in> {10, 13})"

definition match_Bearer :: "string \<Rightarrow> string option" where
  "match_Bearer h =
     (if map ascii_upper (take 6 h) = ''BEARER'' then
        (let rest = drop 6 h;
             k = length (takeWhile is_space rest)
         in List.find (\<lambda>g. g \<noteq> [] \<and> list_all (\<lambda>c. \<not> is_line_terminator c) g)
              (map (\<lambda>n. drop n rest) (rev [1..<Suc k])))
      else None)"

definition parseBearerTokenFromHeader :: "string option \<Rightarrow> string option" where
  "parseBearerTokenFromHeader header =
     (case header of
        None \<Rightarrow> None
      | Some h \<Rightarrow>
          if h = [] then None
          else
            (case match_Bearer h of
               None \<Rightarrow> None
             | Some g \<Rightarrow> if trim g = [] then None else Some (trim g)))"

datatype VerifyResult = VNone | VInvalid string | VValid VerifiedAuthContext

fun message :: "js_error \<Rightarrow> string" where
  "message (Error m) = m"
| "message RangeError = ''Input buffers must have the same byte length''"
| "message TypeError = ''TypeError''"

text \<open>
  \<open>verifyBearerFromRequest\<close>: \<open>header\<close> is \<open>req.headers.get("authorization")\<close>. The
  reads of the environment stand before the \<open>try\<close>, so a missing variable throws;
  whatever \<open>verifyAccessToken\<close> throws is caught and gives \<open>invalid\<close>.
\<close>

definition verifyBearerFromRequest ::
  "jwt_lib \<Rightarrow> int \<Rightarrow> (string \<rightharpoonup> string) \<Rightarrow> string option \<Rightarrow> js_error + VerifyResult"
where
  "verifyBearerFromRequest lib nowSec env header =
     (case parseBearerTokenFromHeader header of
        None \<Rightarrow> Inr VNone
      | Some tok \<Rightarrow>
          (case requiredEnv env ''JWT_SECRET'' of
             Inl e \<Rightarrow> Inl e
           | Inr jwtSecret' \<Rightarrow>
               (case requiredEnv env ''AUTH_ISSUER'' of
                  Inl e \<Rightarrow> Inl e
                | Inr issuer' \<Rightarrow>
                    (case requiredEnv env ''MCP_RESOURCE'' of
                       Inl e \<Rightarrow> Inl e
                     | Inr audience \<Rightarrow>
                         (case verifyAccessToken lib nowSec tok
                                 \<lparr>vp_secret = jwtSecret', vp_issuer = issuer',
                                  vp_audience = audience\<rparr> of
                            Inl e \<Rightarrow> Inr (VInvalid (message e))
                          | Inr cl \<Rightarrow>
                              Inr (VValid
                                \<lparr>ctx_token = tok, ctx_claims = cl, ctx_sub = claim_sub cl,
                                 ctx_name = (case claim_name cl of
                                               Some (JStr n) \<Rightarrow> Some n | _ \<Rightarrow> None),
                                 ctx_scopes = scopeClaimToSet (Some (JStr (claim_scope cl)))\<rparr>))))))"

datatype www_error = invalid_token | insufficient_scope

fun www_error_name :: "www_error \<Rightarrow> string" where
  "www_error_name invalid_token = ''invalid_token''"
| "www_error_name insufficient_scope = ''insufficient_scope''"

text \<open>\<open>v.replaceAll(a, b)\<close> for a one-character \<open>a\<close>.\<close>

definition replaceAll :: "char \<Rightarrow> string \<Rightarrow> string \<Rightarrow> string" where
  "replaceAll a b v = concat (map (\<lambda>c. if c = a then b else [c]) v)"

definition backslash :: char where "backslash = CHR 0x5C"
definition dquote :: char where "dquote = CHR 0x22"

definition escapeHeaderValue :: "string \<Rightarrow> string" where
  "escapeHeaderValue v =
     replaceAll dquote [backslash, dquote] (replaceAll backslash [backslash, backslash] v)"

text \<open>
  \<open>buildWwwAuthenticate\<close>: \<open>resourceMetadataUrl\<close> is the URL of
  \<open>/.well-known/oauth-protected-resource\<close> under the base URL of the deployment.
\<close>

definition buildWwwAuthenticate ::
  "string \<Rightarrow> string option \<Rightarrow> www_error option \<Rightarrow> string option \<Rightarrow> string"
where
  "buildWwwAuthenticate resourceMetadataUrl w_scope w_error w_error_description =
     (let parts =
            [''Bearer resource_metadata='' @ [dquote] @ escapeHeaderValue resourceMetadataUrl
               @ [dquote]]
            @ (case w_scope of
                 None \<Rightarrow> []
               | Some sc \<Rightarrow>
                   if sc = [] then []
                   else [''scope='' @ [dquote] @ escapeHeaderValue sc @ [dquote]])
            @ (case w_error of
                 None \<Rightarrow> []
               | Some e \<Rightarrow> [''error='' @ [dquote] @ www_error_name e @ [dquote]])
            @ (case w_error_description of
                 None \<Rightarrow> []
               | Some d \<Rightarrow>
                   if d = [] then []
                   else [''error_description='' @ [dquote] @ escapeHeaderValue d @ [dquote]])
      in join '', '' parts)"

definition buildJsonRpcToolAuthError :: "json \<Rightarrow> string \<Rightarrow> string \<Rightarrow> json" where
  "buildJsonRpcToolAuthError rpc_id wwwAuthenticate msg =
     JObj [(''jsonrpc'', JStr ''2.0''),
           (''id'', rpc_id),
           (''result'',
            JObj [(''isError'', JBool True),
                  (''content'', JArr [JObj [(''type'', JStr ''text''), (''text'', JStr msg)]]),
                  (''_meta'', JObj [(''mcp/www_authenticate'', JArr [JStr wwwAuthenticate])])])]"

text \<open>
  A response is its status, its headers (a map from the lower-case header name) and its
  body, the value that \<open>JSON.stringify\<close> serialises.
\<close>

record response =
  status :: nat
  headers :: "string \<rightharpoonup> string"
  body :: json

definition corsify :: "response \<Rightarrow> response" where
  "corsify res =
     res\<lparr>headers :=
           (headers res)
             (''access-control-allow-origin'' \<mapsto> ''*'',
              ''access-control-allow-methods'' \<mapsto> ''GET,POST,OPTIONS'',
              ''access-control-allow-headers'' \<mapsto> ''Authorization, Content-Type'',
              ''cache-control'' \<mapsto>
                 (case headers res ''cache-control'' of None \<Rightarrow> ''no-store'' | Some v \<Rightarrow> v))\<rparr>"

definition authErrorResponse :: "nat \<Rightarrow> json \<Rightarrow> string \<Rightarrow> string \<Rightarrow> response" where
  "authErrorResponse st rpc_id wwwAuthenticate msg =
     corsify
       \<lparr>status = st,
        headers = [''content-type'' \<mapsto> ''application/json'',
                   ''www-authenticate'' \<mapsto> wwwAuthenticate,
                   ''cache-control'' \<mapsto> ''no-store''],
        body = buildJsonRpcToolAuthError rpc_id wwwAuthenticate msg\<rparr>"

record parsed_rpc =
  rpc_id :: json
  rpc_method :: "string option"
  rpc_toolName :: "string option"

text \<open>
  \<open>parseJsonRpc\<close>: the operator \<open>in\<close> throws a TypeError on a truthy body that is
  neither an object nor an array.
\<close>

definition parseJsonRpc :: "json \<Rightarrow> js_error + parsed_rpc" where
  "parseJsonRpc reqBody =
     (let ident =
            (if truthy reqBody then
               (case reqBody of
                  JObj kvs \<Rightarrow> Inr (case map_of kvs ''id'' of None \<Rightarrow> JNull | Some v \<Rightarrow> v)
                | JArr xs \<Rightarrow> Inr JNull
                | _ \<Rightarrow> Inl TypeError)
             else Inr JNull);
          meth = (case prop_of (Some reqBody) ''method'' of
                    Some (JStr m) \<Rightarrow> Some m | _ \<Rightarrow> None)
      in case ident of
           Inl e \<Rightarrow> Inl e
         | Inr i \<Rightarrow>
             if meth = Some ''tools/call'' then
               Inr \<lparr>rpc_id = i, rpc_method = meth,
                    rpc_toolName =
                      (case prop_of (prop_of (Some reqBody) ''params'') ''name'' of
                         Some (JStr n) \<Rightarrow> Some n | _ \<Rightarrow> None)\<rparr>
             else Inr \<lparr>rpc_id = i, rpc_method = meth, rpc_toolName = None\<rparr>)"

text \<open>
  The outcome of \<open>POST\<close>: a response of the guard's own, or the request handed to the
  MCP handler under an auth context (\<open>runWithAuthContext(ctxForHandler, ...)\<close>).
\<close>

datatype post_outcome = Respond response | Forward "VerifiedAuthContext option"

text \<open>The guard proper: the part of \<open>POST\<close> after the token has been verified.\<close>

definition gate ::
  "(string \<times> ToolPolicy) list \<Rightarrow> string \<Rightarrow> json \<Rightarrow> string option \<Rightarrow> VerifyResult \<Rightarrow> post_outcome"
where
  "gate policies resourceMetadataUrl ident toolName verified =
     (let ctxForHandler = (case verified of VValid ctx \<Rightarrow> Some ctx | _ \<Rightarrow> None)
      in case getToolPolicy policies toolName of
           Some (Required requiredScopes) \<Rightarrow>
             (case verified of
                VNone \<Rightarrow>
                  Respond (authErrorResponse 401 ident
                    (buildWwwAuthenticate resourceMetadataUrl (Some (join '' '' requiredScopes))
                       (Some insufficient_scope) (Some ''You need to login to continue''))
                    ''Authentication required: no access token provided.'')
              | VInvalid reason \<Rightarrow>
                  Respond (authErrorResponse 401 ident
                    (buildWwwAuthenticate resourceMetadataUrl (Some (join '' '' requiredScopes))
                       (Some invalid_token) (Some ''Token invalid or expired''))
                    ''Authentication required.'')
              | VValid ctx \<Rightarrow>
                  (let missing = filter (\<lambda>s. \<not> has (ctx_scopes ctx) s) requiredScopes
                   in if length missing > 0 then
                        Respond (authErrorResponse 403 ident
                          (buildWwwAuthenticate resourceMetadataUrl
                             (Some (join '' '' requiredScopes))
                             (Some insufficient_scope)
                             (Some ''Re-authorize to grant required access''))
                          ''Insufficient scope.'')
                      else Forward ctxForHandler))
         | Some (Optional optionalScopes) \<Rightarrow>
             (case verified of
                VInvalid reason \<Rightarrow>
                  Respond (authErrorResponse 401 ident
                    (buildWwwAuthenticate resourceMetadataUrl (Some (join '' '' optionalScopes))
                       (Some invalid_token) (Some ''Token invalid or expired''))
                    ''Authentication required.'')
              | _ \<Rightarrow> Forward ctxForHandler)
         | _ \<Rightarrow> Forward ctxForHandler)"

text \<open>
  \<open>POST\<close>: \<open>reqBody\<close> is the parsed body of the request, \<open>None\<close> when it is not JSON.
\<close>

definition POST ::
  "(string \<times> ToolPolicy) list \<Rightarrow> string \<Rightarrow> jwt_lib \<Rightarrow> int \<Rightarrow> (string \<rightharpoonup> string)
     \<Rightarrow> string option \<Rightarrow> json option \<Rightarrow> js_error + post_outcome"
where
  "POST policies resourceMetadataUrl lib nowSec env header reqBody =
     (case reqBody of
        None \<Rightarrow>
          Inr (Respond (corsify
            \<lparr>status = 400,
             headers = [''content-type'' \<mapsto> ''application/json'',
                        ''cache-control'' \<mapsto> ''no-store''],
             body = JObj [(''error'', JStr ''invalid_request''),
                          (''message'', JStr ''Invalid JSON'')]\<rparr>))
      | Some b \<Rightarrow>
          (case parseJsonRpc b of
             Inl e \<Rightarrow> Inl e
           | Inr rpc \<Rightarrow>
               (case verifyBearerFromRequest lib nowSec env header of
                  Inl e \<Rightarrow> Inl e
                | Inr verified \<Rightarrow>
                    Inr (gate policies resourceMetadataUrl (rpc_id rpc) (rpc_toolName rpc)
                           verified))))"

subsection \<open>The notes tool with optional auth\<close>








subsection \<open>Dynamic client registration (\<open>auth-server/server.ts\<close>)\<close>

definition jsonError :: "nat \<Rightarrow> json \<Rightarrow> response" where
  "jsonError st b = \<lparr>status = st, headers = [''cache-control'' \<mapsto> ''no-store''], body = b\<rparr>"

text \<open>\<open>typeof u === "string" ? u.trim() : ""\<close>.\<close>

fun trimmed_string :: "json \<Rightarrow> string" where
  "trimmed_string (JStr u) = trim u"
| "trimmed_string _ = []"

text \<open>
  The handler of \<open>POST /oauth2/register\<close>: \<open>reqBody\<close> is \<open>req.body\<close>, \<open>fresh_id\<close>
  and \<open>now\<close> are what \<open>createClient\<close> draws. The result is the response and the
  store after the call.
\<close>

definition register_client ::
  "string \<Rightarrow> int \<Rightarrow> AuthServerConfig \<Rightarrow> json option \<Rightarrow> store \<Rightarrow> response \<times> store"
where
  "register_client fresh_id now config reqBody st =
     (let b = (case reqBody of None \<Rightarrow> JObj [] | Some JNull \<Rightarrow> JObj [] | Some v \<Rightarrow> v);
          r_client_name = (case prop_of (Some b) ''client_name'' of
                             Some (JStr n) \<Rightarrow> n | _ \<Rightarrow> ''ChatGPT Connector'');
          r_auth_method = (case prop_of (Some b) ''token_endpoint_auth_method'' of
                             Some (JStr m) \<Rightarrow> m | _ \<Rightarrow> ''none'');
          r_redirect_uris = (case prop_of (Some b) ''redirect_uris'' of
                               Some (JArr xs) \<Rightarrow> Some xs | _ \<Rightarrow> None);
          bad = jsonError 400 (JObj [(''error'', JStr ''invalid_client_metadata'')])
      in case r_redirect_uris of
           None \<Rightarrow> (bad, st)
         | Some uris \<Rightarrow>
             if length uris = 0 then (bad, st)
             else if r_auth_method \<noteq> ''none'' then (bad, st)
             else
               (let normalized = filter_Boolean (map trimmed_string uris)
                in if length normalized = 0 then (bad, st)
                   else if \<not> list_all (\<lambda>uri. has (allowedRedirectUris config) uri) normalized
                     then (bad, st)
                   else
                     (let (client, st') =
                            createClient fresh_id now None r_client_name normalized ''none'' st
                      in (\<lparr>status = 201, headers = [''cache-control'' \<mapsto> ''no-store''],
                           body = JObj [(''client_id'', JStr (client_id client)),
                                        (''client_name'', JStr (client_name client)),
                                        (''redirect_uris'', JArr (map JStr (redirect_uris client))),
                                        (''token_endpoint_auth_method'',
                                         JStr (token_endpoint_auth_method client))]\<rparr>,
                          st'))))"

subsection \<open>Clients named by a metadata URL (\<open>auth-server/client-metadata.ts\<close>)\<close>

text \<open>
  The fields of a \<open>URL\<close> object that the code reads. The constructor \<open>new URL(s)\<close> is the
  parameter \<open>P\<close> of the functions below: \<open>None\<close> when it throws.
\<close>

record url =
  href :: string
  protocol :: string
  hostname :: string
  pathname :: string
  hash :: string

definition toLowerCase :: "string \<Rightarrow> string" where
  "toLowerCase s =
     map (\<lambda>c. let n = (of_char c :: nat)
               in if (65 \<le> n \<and> n \<le> 90) \<or> (192 \<le> n \<and> n \<le> 222 \<and> n \<noteq> 215)
                  then char_of (n + 32) else c) s"

record ClientIdMetadataDocument =
  doc_client_id :: string
  doc_client_name :: string
  doc_redirect_uris :: "string list"
  doc_token_endpoint_auth_method :: "string option"

definition tryParseAllowedClientMetadataUrl ::
  "(string \<rightharpoonup> url) \<Rightarrow> string \<Rightarrow> string list \<Rightarrow> url option"
where
  "tryParseAllowedClientMetadataUrl P cid allowedHosts =
     (case P cid of
        None \<Rightarrow> None
      | Some u \<Rightarrow>
          if protocol u \<noteq> ''https:'' then None
          else if pathname u = [] \<or> pathname u = ''/'' then None
          else if hash u \<noteq> [] \<and> length (hash u) > 0 then None
          else if \<not> has allowedHosts (toLowerCase (hostname u)) then None
          else Some u)"

definition normalizeStringArray :: "json option \<Rightarrow> string list" where
  "normalizeStringArray v =
     (case v of Some (JArr xs) \<Rightarrow> filter_Boolean (map trimmed_string xs) | _ \<Rightarrow> [])"

definition isLoopbackRedirectUri :: "(string \<rightharpoonup> url) \<Rightarrow> string \<Rightarrow> bool" where
  "isLoopbackRedirectUri P uri =
     (case P uri of
        None \<Rightarrow> False
      | Some u \<Rightarrow>
          if protocol u \<noteq> ''http:'' \<and> protocol u \<noteq> ''https:'' then False
          else
            (let host = toLowerCase (hostname u)
             in if host = ''localhost'' then True
                else if host = ''127.0.0.1'' then True
                else if host = ''[::1]'' \<or> host = ''::1'' then True
                else False))"

definition isValidRedirectUri :: "(string \<rightharpoonup> url) \<Rightarrow> string \<Rightarrow> bool" where
  "isValidRedirectUri P uri =
     (case P uri of
        None \<Rightarrow> False
      | Some u \<Rightarrow>
          if hash u \<noteq> [] \<and> length (hash u) > 0 then False
          else protocol u = ''http:'' \<or> protocol u = ''https:'')"

definition normalizeRedirectUris :: "(string \<rightharpoonup> url) \<Rightarrow> string list \<Rightarrow> string list" where
  "normalizeRedirectUris P uris =
     sort (Set_of (filter (isValidRedirectUri P) (filter_Boolean (map trim uris))))"

definition arraysEqual :: "string list \<Rightarrow> string list \<Rightarrow> bool" where
  "arraysEqual a b =
     (if length a \<noteq> length b then False else list_all (\<lambda>i. a ! i = b ! i) [0..<length a])"

definition parseClientMetadataDocument ::
  "(string \<rightharpoonup> url) \<Rightarrow> json option \<Rightarrow> ClientIdMetadataDocument option"
where
  "parseClientMetadataDocument P raw =
     (case raw of
        Some (JObj kvs) \<Rightarrow>
          (let obj = Some (JObj kvs);
               d_client_id = (case prop_of obj ''client_id'' of
                                Some (JStr c) \<Rightarrow> trim c | _ \<Rightarrow> []);
               d_client_name = (case prop_of obj ''client_name'' of
                                  Some (JStr n) \<Rightarrow> trim n | _ \<Rightarrow> []);
               d_redirect_uris =
                 normalizeRedirectUris P (normalizeStringArray (prop_of obj ''redirect_uris''));
               d_auth_method = (case prop_of obj ''token_endpoint_auth_method'' of
                                  Some (JStr m) \<Rightarrow> Some (trim m) | _ \<Rightarrow> None)
           in if d_client_id = [] \<or> d_client_name = [] \<or> length d_redirect_uris = 0 then None
              else Some \<lparr>doc_client_id = d_client_id, doc_client_name = d_client_name,
                         doc_redirect_uris = d_redirect_uris,
                         doc_token_endpoint_auth_method =
                           (case d_auth_method of
                              None \<Rightarrow> None
                            | Some m \<Rightarrow> if m = [] then None else Some m)\<rparr>)
      | _ \<Rightarrow> None)"

text \<open>
  \<open>resolveClientFromClientIdMetadataUrl\<close>: \<open>fetchDoc url\<close> is what
  \<open>fetchClientMetadataDocumentWithCache(url, 4000)\<close> resolves to (the document, parsed,
  from the network or the cache; \<open>None\<close> for \<open>null\<close>), \<open>isDev\<close> is
  \<open>process.env.NODE_ENV !== "production"\<close>, \<open>now\<close> is the \<open>Date.now()\<close> of
  \<open>createClient\<close>. The result is the client, if any, and the store after the call.
\<close>

definition resolveClientFromClientIdMetadataUrl ::
  "(string \<rightharpoonup> url) \<Rightarrow> (string \<rightharpoonup> ClientIdMetadataDocument) \<Rightarrow> bool \<Rightarrow> int \<Rightarrow> AuthServerConfig
     \<Rightarrow> string \<Rightarrow> string option \<Rightarrow> store \<Rightarrow> OAuthClient option \<times> store"
where
  "resolveClientFromClientIdMetadataUrl P fetchDoc isDev now config cid requestedRedirectUri st =
     (case tryParseAllowedClientMetadataUrl P cid (allowedClientMetadataHosts config) of
        None \<Rightarrow> (None, st)
      | Some u \<Rightarrow>
          (let canonicalClientId = href u
           in case fetchDoc canonicalClientId of
                None \<Rightarrow> (None, st)
              | Some doc \<Rightarrow>
                  (case P (doc_client_id doc) of
                     None \<Rightarrow> (None, st)
                   | Some claimed \<Rightarrow>
                       if href claimed \<noteq> canonicalClientId then (None, st)
                       else
                         (let authMethod =
                                trim (case doc_token_endpoint_auth_method doc of
                                        None \<Rightarrow> ''none'' | Some m \<Rightarrow> m)
                          in if authMethod \<noteq> ''none'' then (None, st)
                             else
                               (let redirectUris =
                                      Set_of (normalizeRedirectUris P (doc_redirect_uris doc));
                                    checked =
                                      (case requestedRedirectUri of
                                         None \<Rightarrow> Some redirectUris
                                       | Some r \<Rightarrow>
                                           if r = [] then Some redirectUris
                                           else
                                             (let requested = trim r
                                              in if \<not> has redirectUris requested then
                                                   (if isDev \<and> isLoopbackRedirectUri P requested
                                                    then Some (redirectUris @ [requested])
                                                    else None)
                                                 else Some redirectUris))
                                in case checked of
                                     None \<Rightarrow> (None, st)
                                   | Some uris \<Rightarrow>
                                       (let r_uris = sort uris;
                                            existing = findClient st canonicalClientId
                                        in case existing of
                                             Some e \<Rightarrow>
                                               if client_name e = doc_client_name doc
                                                  \<and> arraysEqual (sort (redirect_uris e)) r_uris
                                               then (Some e, st)
                                               else
                                                 (let (c, st') =
                                                        createClient [] now (Some canonicalClientId)
                                                          (doc_client_name doc) r_uris ''none'' st
                                                  in (Some c, st'))
                                           | None \<Rightarrow>
                                               (let (c, st') =
                                                      createClient [] now (Some canonicalClientId)
                                                        (doc_client_name doc) r_uris ''none'' st
                                                in (Some c, st'))))))))"

text \<open>
  The URL constructor on a fragment of its inputs, for the concrete runs below: an
  absolute \<open>http\<close> or \<open>https\<close> URL whose host is made of letters, digits, dots and
  hyphens, with an optional port and with a path, query and fragment of unreserved
  characters and no dot segments. The constructor lowers the scheme and the host, drops
  the default port and gives an empty path as \<open>/\<close>. Every other input is \<open>None\<close>
  here: the functions above treat a URL of another scheme as they treat a string the
  constructor rejects.
\<close>

definition url_safe_char :: "char \<Rightarrow> bool" where
  "url_safe_char c =
     (let n = (of_char c :: nat)
      in (97 \<le> n \<and> n \<le> 122) \<or> (65 \<le> n \<and> n \<le> 90) \<or> (48 \<le> n \<and> n \<le> 57)
         \<or> c \<in> set ''-._~/=&'')"

definition host_char :: "char \<Rightarrow> bool" where
  "host_char c =
     (let n = (of_char c :: nat)
      in (97 \<le> n \<and> n \<le> 122) \<or> (48 \<le> n \<and> n \<le> 57) \<or> c \<in> set ''-.'')"

definition is_digit :: "char \<Rightarrow> bool" where
  "is_digit c = (let n = (of_char c :: nat) in 48 \<le> n \<and> n \<le> 57)"

text \<open>The segments of a path, split at \<open>/\<close>.\<close>

fun segments :: "string \<Rightarrow> string \<Rightarrow> string list" where
  "segments acc [] = [rev acc]"
| "segments acc (c # cs) =
     (if c = CHR ''/'' then rev acc # segments [] cs else segments (c # acc) cs)"

definition URL_lite :: "string \<Rightarrow> url option" where
  "URL_lite s =
     (let scheme = toLowerCase (takeWhile (\<lambda>c. c \<noteq> CHR '':'') s);
          after_scheme = dropWhile (\<lambda>c. c \<noteq> CHR '':'') s;
          after_slashes = drop 3 after_scheme;
          authority = takeWhile (\<lambda>c. c \<notin> set ''/?#'') after_slashes;
          tail = dropWhile (\<lambda>c. c \<notin> set ''/?#'') after_slashes;
          host = toLowerCase (takeWhile (\<lambda>c. c \<noteq> CHR '':'') authority);
          port = drop 1 (dropWhile (\<lambda>c. c \<noteq> CHR '':'') authority);
          path = takeWhile (\<lambda>c. c \<notin> set ''?#'') tail;
          after_path = dropWhile (\<lambda>c. c \<notin> set ''?#'') tail;
          query = takeWhile (\<lambda>c. c \<noteq> CHR ''#'') after_path;
          fragment = dropWhile (\<lambda>c. c \<noteq> CHR ''#'') after_path;
          default_port = (if scheme = ''https'' then ''443'' else ''80'');
          port_text = (if port = [] \<or> port = default_port then [] else CHR '':'' # port);
          path_text = (if path = [] then ''/'' else path)
      in if (scheme = ''http'' \<or> scheme = ''https'') \<and> take 3 after_scheme = ''://''
            \<and> host \<noteq> [] \<and> list_all host_char host
            \<and> list_all is_digit port \<and> take 1 port \<noteq> ''0'' \<and> length port \<le> 4
            \<and> list_all url_safe_char path
            \<and> ''.'' \<notin> set (segments [] path) \<and> ''..'' \<notin> set (segments [] path)
            \<and> list_all url_safe_char (drop 1 query)
            \<and> list_all url_safe_char (drop 1 fragment)
         then Some \<lparr>href = scheme @ ''://'' @ host @ port_text @ path_text @ query @ fragment,
                    protocol = scheme @ '':'',
                    hostname = host,
                    pathname = path_text,
                    hash = (if length fragment \<le> 1 then [] else fragment)\<rparr>
         else None)"

subsection \<open>Outcomes and sequences of redemptions\<close>

text \<open>The error code of what \<open>redeemAuthorizationCode\<close> returned, if it is an error.\<close>

definition error_of :: "OAuthError + token_response \<Rightarrow> oauth_error_code option" where
  "error_of r = (case r of Inl e \<Rightarrow> Some (error e) | Inr t \<Rightarrow> None)"

text \<open>
  The token endpoint serves one request after the other on the shared store: each call
  of \<open>redeemAuthorizationCode\<close> has its own parameters and clock readings and leaves
  the store to the next one. A call that throws leaves the store as it found it.
\<close>

fun redeem_calls ::
  "(byte list \<Rightarrow> byte list) \<Rightarrow> jwt_lib \<Rightarrow> AuthServerConfig \<Rightarrow> (int \<times> int \<times> redeem_params) list
     \<Rightarrow> store \<Rightarrow> (js_error + (OAuthError + token_response)) list \<times> store"
where
  "redeem_calls H lib config [] st = ([], st)"
| "redeem_calls H lib config ((now, now', q) # cs) st =
     (case redeemAuthorizationCode H lib now now' config q st of
        Inl e \<Rightarrow> (let (rs, st'') = redeem_calls H lib config cs st in (Inl e # rs, st''))
      | Inr (r, st') \<Rightarrow>
          (let (rs, st'') = redeem_calls H lib config cs st' in (Inr r # rs, st'')))"

text \<open>A code that the store holds as used.\<close>

definition is_used :: "store \<Rightarrow> string \<Rightarrow> bool" where
  "is_used st c = (case authCodesByCode st c of None \<Rightarrow> False | Some rec \<Rightarrow> used rec)"


subsection \<open>The order of the checks of an authorization request\<close>

text \<open>
  The checks of section 4.6 (Authorize, validate request) in the order the specification
  gives them, each with its error code and the description the code attaches:
  the first check that fails, or \<open>None\<close> when the request is valid. A parameter is
  missing when it is absent or empty.
\<close>

definition query_param :: "json \<Rightarrow> string \<Rightarrow> string option" where
  "query_param query k = firstString (prop_of (Some query) k)"

definition missing :: "string option \<Rightarrow> bool" where
  "missing v = (v = None \<or> v = Some [])"

definition scope_words :: "json \<Rightarrow> string list" where
  "scope_words query =
     parseScopeParam (Some (case query_param query ''scope'' of None \<Rightarrow> [] | Some s \<Rightarrow> s))"

definition spec_authorize_failure ::
  "json \<Rightarrow> AuthServerConfig \<Rightarrow> OAuthClient option \<Rightarrow> (oauth_error_code \<times> string) option"
where
  "spec_authorize_failure query config client =
     (if query_param query ''response_type'' \<noteq> Some ''code''
        then Some (invalid_request, ''response_type must be code'')
      else if missing (query_param query ''client_id'')
              \<or> missing (query_param query ''redirect_uri'')
              \<or> missing (query_param query ''code_challenge'')
              \<or> missing (query_param query ''code_challenge_method'')
              \<or> missing (query_param query ''resource'')
        then Some (invalid_request, ''Missing required parameters'')
      else
        (case client of
           None \<Rightarrow> Some (unauthorized_client, ''Unknown client_id'')
         | Some cl \<Rightarrow>
             if query_param query ''redirect_uri'' \<notin> set (map Some (redirect_uris cl))
               then Some (invalid_request, ''redirect_uri not allowed for this client'')
             else if query_param query ''code_challenge_method'' \<noteq> Some ''S256''
               then Some (invalid_request, ''code_challenge_method must be S256'')
             else if query_param query ''resource'' \<noteq> Some (mcpResource config)
               then Some (invalid_request, ''resource must match MCP_RESOURCE'')
             else if scope_words query = []
               then Some (invalid_request, ''scope is required'')
             else if \<not> set (scope_words query) \<subseteq> set SCOPES_SUPPORTED
               then Some (invalid_request, ''Requested scope is not supported'')
             else None))"

subsection \<open>The form of a bearer header\<close>

text \<open>
  A header of the form \<open>Bearer <token>\<close> with a non-empty token, in the words of the
  specification (section 4.7, step 1): the scheme keyword in any case, white space, and
  a token that begins with a character other than white space. A header value holds no
  line terminator; a string with one after the scheme is not of the form.
\<close>

definition bearer_form :: "string \<Rightarrow> bool" where
  "bearer_form h =
     (map ascii_upper (take 6 h) = ''BEARER''
      \<and> takeWhile is_space (drop 6 h) \<noteq> []
      \<and> dropWhile is_space (drop 6 h) \<noteq> []
      \<and> list_all (\<lambda>c. \<not> is_line_terminator c) (dropWhile is_space (drop 6 h)))"

subsection \<open>The challenge of the guard, spelled out\<close>





subsection \<open>A call of the notes teaser through the guard\<close>




subsection \<open>What a registration request carries\<close>

text \<open>
  The fields of a registration body as the handler reads them: the array
  \<open>redirect_uris\<close> (empty when the field is absent or not an array), its entries that
  are strings, trimmed, without the blank ones; \<open>token_endpoint_auth_method\<close> when it is a
  string; \<open>client_name\<close> with its default.
\<close>

definition dcr_body :: "json option \<Rightarrow> json" where
  "dcr_body reqBody = (case reqBody of None \<Rightarrow> JObj [] | Some JNull \<Rightarrow> JObj [] | Some v \<Rightarrow> v)"

definition dcr_redirect_uris :: "json option \<Rightarrow> json list" where
  "dcr_redirect_uris reqBody =
     (case prop_of (Some (dcr_body reqBody)) ''redirect_uris'' of
        Some (JArr xs) \<Rightarrow> xs | _ \<Rightarrow> [])"

definition dcr_kept :: "json option \<Rightarrow> string list" where
  "dcr_kept reqBody = filter (\<lambda>u. u \<noteq> []) (map trimmed_string (dcr_redirect_uris reqBody))"

definition dcr_auth_method :: "json option \<Rightarrow> string option" where
  "dcr_auth_method reqBody =
     (case prop_of (Some (dcr_body reqBody)) ''token_endpoint_auth_method'' of
        Some (JStr m) \<Rightarrow> Some m | _ \<Rightarrow> None)"

definition dcr_client_name :: "json option \<Rightarrow> string" where
  "dcr_client_name reqBody =
     (case prop_of (Some (dcr_body reqBody)) ''client_name'' of
        Some (JStr n) \<Rightarrow> n | _ \<Rightarrow> ''ChatGPT Connector'')"

definition dcr_rejected :: "AuthServerConfig \<Rightarrow> json option \<Rightarrow> bool" where
  "dcr_rejected config reqBody =
     (dcr_redirect_uris reqBody = []
      \<or> dcr_auth_method reqBody \<notin> {None, Some ''none''}
      \<or> dcr_kept reqBody = []
      \<or> (\<exists>u \<in> set (dcr_kept reqBody). u \<notin> set (allowedRedirectUris config)))"

subsection \<open>Sample values for the concrete runs\<close>

definition sample_digest :: "byte list \<Rightarrow> byte list" where
  "sample_digest bs = take 32 (rev bs)"

definition sample_config :: AuthServerConfig where
  "sample_config =
     \<lparr>authPort = 4000, issuer = ''http://localhost:4000'',
      mcpResource = ''http://localhost:3000/mcp'', jwtSecret = ''s3cret'',
      accessTokenTtlSec = 600, authCodeTtlSec = 600,
      allowedRedirectUris = [''https://chatgpt.com/connector_platform_oauth_redirect'',
                             ''https://example-client.test/cb''],
      allowedClientMetadataHosts = [''example.com'']\<rparr>"

definition sample_client :: OAuthClient where
  "sample_client =
     \<lparr>client_id = ''c_1'', client_name = ''Demo'',
      redirect_uris = [''https://example-client.test/cb''],
      token_endpoint_auth_method = ''none'', created_at = 0\<rparr>"

definition sample_record :: AuthCodeRecord where
  "sample_record =
     \<lparr>rec_code = ''ac_1'', rec_client_id = ''c_1'',
      rec_redirect_uri = ''https://example-client.test/cb'',
      rec_resource = ''http://localhost:3000/mcp'', rec_scope = ''notes:read'',
      rec_code_challenge = computeS256CodeChallenge sample_digest ''verifier-1'',
      rec_code_challenge_method = ''S256'', rec_user_id = ''u_123'',
      rec_user_name = Some ''Alex'', rec_created_at = 1000, rec_expires_at = 601000,
      used = False\<rparr>"

definition sample_store :: store where
  "sample_store =
     \<lparr>clientsById = [''c_1'' \<mapsto> sample_client],
      authCodesByCode = [''ac_1'' \<mapsto> sample_record]\<rparr>"

definition sample_params :: redeem_params where
  "sample_params =
     \<lparr>p_code = ''ac_1'', p_client = Some sample_client, p_client_id = ''c_1'',
      p_redirect_uri = ''https://example-client.test/cb'',
      p_resource = ''http://localhost:3000/mcp'', p_code_verifier = ''verifier-1''\<rparr>"

definition sample_hmac :: "string \<Rightarrow> string \<Rightarrow> byte list" where
  "sample_hmac secret input = take 32 (rev (Buffer_from (secret @ ''.'' @ input)))"

definition sample_payload :: "string \<Rightarrow> string \<Rightarrow> string \<Rightarrow> json" where
  "sample_payload p_iss p_aud p_scope =
     JObj [(''iss'', JStr p_iss), (''sub'', JStr ''u_123''), (''aud'', JStr p_aud),
           (''iat'', JNum 1000), (''exp'', JNum 1600), (''scope'', JStr p_scope),
           (''name'', JStr ''Alex'')]"

definition sample_jws :: "string \<Rightarrow> json \<Rightarrow> jws" where
  "sample_jws input pl =
     \<lparr>jws_alg = ''HS256'', jws_payload = pl, jws_signing_input = input,
      jws_signature = sample_hmac ''s3cret'' input\<rparr>"

definition sample_tokens :: "(string \<times> jws) list" where
  "sample_tokens =
     [(''t.notes'', sample_jws ''t1''
         (sample_payload ''http://localhost:4000'' ''http://localhost:3000/mcp''
            ''notes:read profile:read'')),
      (''t.profile'', sample_jws ''t2''
         (sample_payload ''http://localhost:4000'' ''http://localhost:3000/mcp''
            ''profile:read'')),
      (''t.other-aud'', sample_jws ''t3''
         (sample_payload ''http://localhost:4000'' ''http://other.test/mcp'' ''notes:read'')),
      (''t.other-iss'', sample_jws ''t4''
         (sample_payload ''http://evil.test'' ''http://localhost:3000/mcp'' ''notes:read'')),
      (''t.a'', sample_jws ''t5''
         (sample_payload ''http://localhost:4000'' ''http://localhost:3000/mcp'' ''a'')),
      (''t.cab'', sample_jws ''t6''
         (sample_payload ''http://localhost:4000'' ''http://localhost:3000/mcp'' ''c a b''))]"

text \<open>The context that a sample token with the given scope claim verifies to.\<close>

definition sample_ctx :: "string \<Rightarrow> string \<Rightarrow> VerifiedAuthContext" where
  "sample_ctx tok sc =
     \<lparr>ctx_token = tok,
      ctx_claims =
        \<lparr>claim_iss = ''http://localhost:4000'', claim_sub = ''u_123'',
         claim_aud = JStr ''http://localhost:3000/mcp'', claim_scope = sc,
         claim_name = Some (JStr ''Alex''),
         claim_payload =
           sample_payload ''http://localhost:4000'' ''http://localhost:3000/mcp'' sc\<rparr>,
      ctx_sub = ''u_123'', ctx_name = Some ''Alex'',
      ctx_scopes = Set_of (parseScopeParam (Some sc))\<rparr>"

definition sample_vp :: verify_params where
  "sample_vp =
     \<lparr>vp_secret = ''s3cret'', vp_issuer = ''http://localhost:4000'',
      vp_audience = ''http://localhost:3000/mcp''\<rparr>"



definition sample_lib :: jwt_lib where
  "sample_lib =
     \<lparr>jwt_sign = (\<lambda>cl secret. ''header.payload.signature''),
      jws_decode = map_of sample_tokens,
      hmac_sha256 = sample_hmac\<rparr>"


definition sample_token :: token_response where
  "sample_token = \<lparr>access_token = ''header.payload.signature'', token_type = ''Bearer'',
      expires_in = 600, granted_scope = ''notes:read''\<rparr>"

definition sample_store_used :: store where
  "sample_store_used = markAuthCodeUsed ''ac_1'' sample_store"

definition sample_query :: json where
  "sample_query =
     JObj [(''response_type'', JStr ''code''), (''client_id'', JStr ''c_1''),
           (''redirect_uri'', JStr ''https://example-client.test/cb''),
           (''scope'', JStr ''notes:read  profile:read notes:read''),
           (''state'', JStr ''xyz''), (''code_challenge'', JStr ''E9Melhoa2OwvFrEMTJguCHaoeK1t8URWbuGJSstw-cM''),
           (''code_challenge_method'', JStr ''S256''),
           (''resource'', JStr ''http://localhost:3000/mcp'')]"

definition sample_query_bad :: json where
  "sample_query_bad =
     JObj [(''response_type'', JStr ''code''), (''client_id'', JStr ''c_1''),
           (''redirect_uri'', JStr ''https://evil.test/cb''),
           (''scope'', JStr ''notes:read''),
           (''state'', JStr ''xyz''), (''code_challenge'', JStr ''E9Melhoa2OwvFrEMTJguCHaoeK1t8URWbuGJSstw-cM''),
           (''code_challenge_method'', JStr ''plain''),
           (''resource'', JStr ''http://localhost:3000/mcp'')]"

definition sample_registration_ok :: json where
  "sample_registration_ok =
     JObj [(''client_name'', JStr ''Example''),
           (''redirect_uris'', JArr [JStr ''https://example-client.test/cb'']),
           (''token_endpoint_auth_method'', JStr ''none'')]"

definition sample_registration_bad :: json where
  "sample_registration_bad =
     JObj [(''redirect_uris'', JArr [JStr ''https://example-client.test/cb'',
                                     JStr ''https://evil.test/cb''])]"

definition sample_registration :: json where
  "sample_registration =
     JObj [(''client_name'', JStr ''Example''),
           (''redirect_uris'', JArr [JStr ''https://example-client.test/cb'', JStr ''  '']),
           (''token_endpoint_auth_method'', JNum 5)]"

definition sample_metadata :: "string \<Rightarrow> json" where
  "sample_metadata declared_id =
     JObj [(''client_id'', JStr declared_id), (''client_name'', JStr ''Example''),
           (''redirect_uris'', JArr [JStr ''https://example-client.test/cb'']),
           (''token_endpoint_auth_method'', JStr ''none'')]"

definition sample_doc :: "string \<Rightarrow> ClientIdMetadataDocument" where
  "sample_doc declared_id =
     \<lparr>doc_client_id = declared_id, doc_client_name = ''Example'',
      doc_redirect_uris = [''https://example-client.test/cb''],
      doc_token_endpoint_auth_method = Some ''none''\<rparr>"

text \<open>The network: the document that each URL serves, already parsed.\<close>

definition sample_fetch :: "string \<Rightarrow> string \<rightharpoonup> ClientIdMetadataDocument" where
  "sample_fetch declared_id =
     [''https://example.com/client.json'' \<mapsto> sample_doc declared_id]"

section \<open>Properties\<close>

subsection \<open>Strings and sets of strings\<close>

lemma Set_of_set [simp]: "set (Set_of xs) = set xs"
  by (simp add: Set_of_def)

lemma Set_of_distinct [simp]: "distinct (Set_of xs)"
  by (simp add: Set_of_def)

lemma has_Set_of [simp]: "has (Set_of xs) x = (x \<in> set xs)"
  by (simp add: has_def)

lemma filter_Boolean_set [simp]: "set (filter_Boolean xs) = {s \<in> set xs. s \<noteq> []}"
  by (auto simp: filter_Boolean_def)

subsection \<open>PKCE\<close>


lemma eq_notin_alphabet: "CHR ''='' \<notin> set b64_alphabet"
  by (simp add: b64_alphabet_def alnum62_def)






lemma constantTimeEqual_refl: "constantTimeEqual a a = Inr True"
  by (simp add: constantTimeEqual_def timingSafeEqual_def)

lemma constantTimeEqual_total: "constantTimeEqual a b = Inr (Buffer_from a = Buffer_from b)"
  by (auto simp: constantTimeEqual_def timingSafeEqual_def Let_def)



subsection \<open>Redeeming an authorization code\<close>

lemma redeem_returns:
  "\<exists>r st'. redeemAuthorizationCode H lib now now' config params st = Inr (r, st')"
  by (auto simp: redeemAuthorizationCode_def constantTimeEqual_total Let_def
      split: option.splits)

lemma redeem_error_keeps_store:
  "redeemAuthorizationCode H lib now now' config params st = Inr (Inl e, st') \<Longrightarrow> st' = st"
  by (auto simp: redeemAuthorizationCode_def constantTimeEqual_total Let_def
      split: option.splits if_splits)

lemma redeem_success_marks:
  "redeemAuthorizationCode H lib now now' config params st = Inr (Inr t, st') \<Longrightarrow>
   st' = markAuthCodeUsed (p_code params) st \<and> (\<exists>rec. authCodesByCode st (p_code params) = Some rec)"
  by (auto simp: redeemAuthorizationCode_def constantTimeEqual_total Let_def findAuthCode_def
      split: option.splits if_splits)

lemma markAuthCodeUsed_is_used:
  "authCodesByCode st c = Some rec \<Longrightarrow> is_used (markAuthCodeUsed c st) c"
  by (simp add: is_used_def markAuthCodeUsed_def)

lemma markAuthCodeUsed_keeps_used:
  "is_used st c \<Longrightarrow> is_used (markAuthCodeUsed c' st) c"
  by (auto simp: is_used_def markAuthCodeUsed_def split: option.splits)

lemma redeem_keeps_used:
  assumes "is_used st c" "redeemAuthorizationCode H lib now now' config params st = Inr (r, st')"
  shows "is_used st' c"
proof (cases r)
  case (Inl e)
  with assms show ?thesis using redeem_error_keeps_store by blast
next
  case (Inr t)
  with assms(2) have "st' = markAuthCodeUsed (p_code params) st"
    using redeem_success_marks by blast
  with assms(1) show ?thesis by (simp add: markAuthCodeUsed_keeps_used)
qed

lemma redeem_used_code_fails:
  assumes "is_used st (p_code params)"
  shows "\<exists>e. redeemAuthorizationCode H lib now now' config params st = Inr (Inl e, st)
           \<and> error e = (if p_client params = None then unauthorized_client else invalid_grant)"
  using assms
  by (auto simp: redeemAuthorizationCode_def is_used_def findAuthCode_def oauth_err_def
      split: option.splits)

lemma redeem_calls_used:
  assumes "is_used st c" "redeem_calls H lib config calls st = (outs, st2)"
      "i < length calls" "p_code (snd (snd (calls ! i))) = c"
  shows "\<exists>e. outs ! i = Inr (Inl e)
           \<and> error e = (if p_client (snd (snd (calls ! i))) = None then unauthorized_client
                         else invalid_grant)"
  using assms
proof (induction calls arbitrary: st outs i st2)
  case Nil
  then show ?case by simp
next
  case (Cons call calls)
  obtain n n' q where call: "call = (n, n', q)" by (cases call) auto
  obtain r st' where step: "redeemAuthorizationCode H lib n n' config q st = Inr (r, st')"
    using redeem_returns by blast
  obtain rs st'' where rest: "redeem_calls H lib config calls st' = (rs, st'')"
    by (cases "redeem_calls H lib config calls st'") auto
  from Cons.prems(2) call step rest have outs: "outs = Inr r # rs"
    by simp
  have used': "is_used st' c" using redeem_keeps_used [OF Cons.prems(1) step] .
  show ?case
  proof (cases i)
    case 0
    with Cons.prems(4) call have "p_code q = c" by simp
    with Cons.prems(1) have "is_used st (p_code q)" by simp
    from redeem_used_code_fails [OF this, of H lib n n' config] step
    obtain e where "r = Inl e"
        "error e = (if p_client q = None then unauthorized_client else invalid_grant)"
      by auto
    with 0 outs call show ?thesis by simp
  next
    case (Suc j)
    with Cons.prems(3,4) have "j < length calls" "p_code (snd (snd (calls ! j))) = c" by simp_all
    from Cons.IH [OF used' rest this] Suc outs show ?thesis by simp
  qed
qed

lemma sample_first_redemption:
  "redeemAuthorizationCode sample_digest sample_lib 2000 2500 sample_config sample_params
     sample_store = Inr (Inr sample_token, sample_store_used)"
  by (simp add: redeemAuthorizationCode_def sample_params_def sample_store_def
      sample_record_def sample_config_def sample_lib_def sample_token_def sample_store_used_def
      findAuthCode_def constantTimeEqual_refl signAccessToken_def Let_def)

text \<open>
  Claim C1, as amended. A redemption of an unused, unexpired code by a resolved client
  with the bound \<open>client_id\<close>, \<open>redirect_uri\<close> and \<open>resource\<close> (the configured one)
  and the verifier of the stored challenge succeeds and marks the code used. Once a
  redemption of a code has succeeded, every later call that presents the same code, in
  any sequence of calls on the store and whatever its other parameters, returns an
  error: \<open>invalid_grant\<close> when its client is resolved, \<open>unauthorized_client\<close> when it
  is not, since the client is checked before the code. As stated, with
  \<open>invalid_grant\<close> for every later call, the claim fails for a call whose
  \<open>client_id\<close> resolves to no client.
\<close>

theorem single_use_code:
  "(p_client params = Some cl \<and> findAuthCode st (p_code params) = Some rec \<and> \<not> used rec
      \<and> now < rec_expires_at rec \<and> rec_client_id rec = p_client_id params
      \<and> rec_redirect_uri rec = p_redirect_uri params \<and> rec_resource rec = p_resource params
      \<and> p_resource params = mcpResource config
      \<and> rec_code_challenge rec = computeS256CodeChallenge H (p_code_verifier params)
    \<longrightarrow> (\<exists>t. redeemAuthorizationCode H lib now now' config params st
                = Inr (Inr t, markAuthCodeUsed (p_code params) st))
         \<and> is_used (markAuthCodeUsed (p_code params) st) (p_code params))
   \<and> (redeemAuthorizationCode H lib now now' config params st = Inr (Inr t1, st1)
        \<and> redeem_calls H lib config calls st1 = (outs, st2)
        \<and> i < length calls \<and> p_code (snd (snd (calls ! i))) = p_code params
    \<longrightarrow> (\<exists>e. outs ! i = Inr (Inl e)
           \<and> error e = (if p_client (snd (snd (calls ! i))) = None then unauthorized_client
                         else invalid_grant)))"
proof (intro conjI impI)
  assume a: "p_client params = Some cl \<and> findAuthCode st (p_code params) = Some rec \<and> \<not> used rec
      \<and> now < rec_expires_at rec \<and> rec_client_id rec = p_client_id params
      \<and> rec_redirect_uri rec = p_redirect_uri params \<and> rec_resource rec = p_resource params
      \<and> p_resource params = mcpResource config
      \<and> rec_code_challenge rec = computeS256CodeChallenge H (p_code_verifier params)"
  then show "\<exists>t. redeemAuthorizationCode H lib now now' config params st
                = Inr (Inr t, markAuthCodeUsed (p_code params) st)"
    by (simp add: redeemAuthorizationCode_def constantTimeEqual_refl Let_def)
  from a have "authCodesByCode st (p_code params) = Some rec" by (simp add: findAuthCode_def)
  then show "is_used (markAuthCodeUsed (p_code params) st) (p_code params)"
    by (rule markAuthCodeUsed_is_used)
next
  assume b: "redeemAuthorizationCode H lib now now' config params st = Inr (Inr t1, st1)
        \<and> redeem_calls H lib config calls st1 = (outs, st2)
        \<and> i < length calls \<and> p_code (snd (snd (calls ! i))) = p_code params"
  then obtain rec where "st1 = markAuthCodeUsed (p_code params) st"
      "authCodesByCode st (p_code params) = Some rec"
    using redeem_success_marks by blast
  then have "is_used st1 (p_code params)" by (simp add: markAuthCodeUsed_is_used)
  from redeem_calls_used [OF this] b
  show "\<exists>e. outs ! i = Inr (Inl e)
           \<and> error e = (if p_client (snd (snd (calls ! i))) = None then unauthorized_client
                         else invalid_grant)"
    by blast
qed

theorem single_use_code_witness:
  "redeemAuthorizationCode sample_digest sample_lib 2000 2500 sample_config sample_params
     sample_store = Inr (Inr sample_token, sample_store_used)
   \<and> is_used sample_store_used ''ac_1''
   \<and> (\<exists>e. fst (redeem_calls sample_digest sample_lib sample_config
               [(3000, 3500, sample_params),
                (4000, 4500, sample_params\<lparr>p_code_verifier := ''verifier-2''\<rparr>)]
               sample_store_used) ! 1 = Inr (Inl e)
          \<and> error e = invalid_grant)"
proof -
  let ?calls = "[(3000::int, 3500::int, sample_params),
                 (4000, 4500, sample_params\<lparr>p_code_verifier := ''verifier-2''\<rparr>)]"
  let ?run = "redeem_calls sample_digest sample_lib sample_config ?calls sample_store_used"
  note inst = single_use_code [where params = sample_params and cl = sample_client
      and st = sample_store and rec = sample_record and now = 2000 and now' = 2500
      and config = sample_config and H = sample_digest and lib = sample_lib
      and ?t1.0 = sample_token and ?st1.0 = sample_store_used and calls = ?calls
      and outs = "fst ?run" and ?st2.0 = "snd ?run" and i = 1]
  have pre: "p_client sample_params = Some sample_client
      \<and> findAuthCode sample_store (p_code sample_params) = Some sample_record
      \<and> \<not> used sample_record \<and> 2000 < rec_expires_at sample_record
      \<and> rec_client_id sample_record = p_client_id sample_params
      \<and> rec_redirect_uri sample_record = p_redirect_uri sample_params
      \<and> rec_resource sample_record = p_resource sample_params
      \<and> p_resource sample_params = mcpResource sample_config
      \<and> rec_code_challenge sample_record
          = computeS256CodeChallenge sample_digest (p_code_verifier sample_params)"
    by (simp add: sample_params_def sample_store_def sample_record_def sample_config_def
        findAuthCode_def)
  have code: "p_code sample_params = ''ac_1''" by (simp add: sample_params_def)
  from mp [OF inst [THEN conjunct1] pre] have used1: "is_used sample_store_used ''ac_1''"
    by (simp add: code sample_store_used_def)
  have later: "redeem_calls sample_digest sample_lib sample_config ?calls sample_store_used
                 = (fst ?run, snd ?run)
               \<and> (1::nat) < length ?calls
               \<and> p_code (snd (snd (?calls ! 1))) = p_code sample_params"
    by simp
  have "\<exists>e. fst ?run ! 1 = Inr (Inl e)
          \<and> error e = (if p_client (snd (snd (?calls ! 1))) = None then unauthorized_client
                        else invalid_grant)"
  proof (rule mp [OF inst [THEN conjunct2]])
    show "redeemAuthorizationCode sample_digest sample_lib 2000 2500 sample_config
            sample_params sample_store = Inr (Inr sample_token, sample_store_used)
          \<and> redeem_calls sample_digest sample_lib sample_config ?calls sample_store_used
                 = (fst ?run, snd ?run)
          \<and> (1::nat) < length ?calls
          \<and> p_code (snd (snd (?calls ! 1))) = p_code sample_params"
      using sample_first_redemption later by (intro conjI) (simp_all only: simp_thms)
  qed
  moreover have "p_client (snd (snd (?calls ! 1))) \<noteq> None" by (simp add: sample_params_def)
  ultimately have "\<exists>e. fst ?run ! 1 = Inr (Inl e) \<and> error e = invalid_grant" by auto
  with sample_first_redemption used1 show ?thesis by blast
qed

theorem single_use_code_counterexample:
  "redeemAuthorizationCode sample_digest sample_lib 2000 2500 sample_config sample_params
     sample_store = Inr (Inr sample_token, sample_store_used)
   \<and> redeemAuthorizationCode sample_digest sample_lib 3000 3500 sample_config
       (sample_params\<lparr>p_client := None, p_client_id := ''c_unknown''\<rparr>) sample_store_used
     = Inr (Inl (oauth_err unauthorized_client ''Unknown client_id''), sample_store_used)"
  by (simp add: sample_first_redemption) (simp add: redeemAuthorizationCode_def sample_params_def)




subsection \<open>Validating an authorization request\<close>

lemma parseScopeParam_nonempty: "[] \<notin> set (parseScopeParam s)"
  by (simp add: parseScopeParam_def)

lemma normalizeScopes_set: "set (normalizeScopes xs) = {s \<in> set xs. s \<noteq> []}"
  by (simp add: normalizeScopes_def)

lemma normalizeScopes_sorted: "sorted (normalizeScopes xs)"
  by (simp add: normalizeScopes_def)

lemma normalizeScopes_distinct: "distinct (normalizeScopes xs)"
  by (simp add: normalizeScopes_def)

lemma normalizeScopes_parse_set:
  "set (normalizeScopes (parseScopeParam s)) = set (parseScopeParam s)"
  using parseScopeParam_nonempty [of s] by (auto simp: normalizeScopes_set)

lemma normalizeScopes_empty_iff:
  "(length (normalizeScopes (parseScopeParam s)) = 0) = (parseScopeParam s = [])"
proof -
  have "(normalizeScopes (parseScopeParam s) = []) = (set (normalizeScopes (parseScopeParam s)) = {})"
    by simp
  also have "\<dots> = (parseScopeParam s = [])"
    by (simp only: normalizeScopes_parse_set set_empty)
  finally show ?thesis by simp
qed

lemma isSubsetOfSupportedScopes_iff:
  "isSubsetOfSupportedScopes xs = (set xs \<subseteq> set SCOPES_SUPPORTED)"
  by (auto simp: isSubsetOfSupportedScopes_def list_all_iff Let_def)

lemma validate_missing:
  assumes "query_param query ''response_type'' = Some ''code''"
    and "missing (query_param query ''client_id'')
         \<or> missing (query_param query ''redirect_uri'')
         \<or> missing (query_param query ''code_challenge'')
         \<or> missing (query_param query ''code_challenge_method'')
         \<or> missing (query_param query ''resource'')"
  shows "validateAuthorizeRequest query config client
           = Inl \<lparr>error = invalid_request, error_description = Some ''Missing required parameters''\<rparr>"
  unfolding validateAuthorizeRequest_def Let_def
  unfolding query_param_def [symmetric]
  unfolding scope_words_def [symmetric]
  using assms by (auto simp: missing_def oauth_err_def split: option.split)

lemma validate_present:
  assumes "query_param query ''response_type'' = Some ''code''"
    and "query_param query ''client_id'' = Some cid" "cid \<noteq> []"
    and "query_param query ''redirect_uri'' = Some ruri" "ruri \<noteq> []"
    and "query_param query ''code_challenge'' = Some chal" "chal \<noteq> []"
    and "query_param query ''code_challenge_method'' = Some meth" "meth \<noteq> []"
    and "query_param query ''resource'' = Some res" "res \<noteq> []"
  shows "validateAuthorizeRequest query config client =
     (case client of
        None \<Rightarrow> Inl (oauth_err unauthorized_client ''Unknown client_id'')
      | Some cl \<Rightarrow>
          if ruri \<notin> set (redirect_uris cl)
            then Inl (oauth_err invalid_request ''redirect_uri not allowed for this client'')
          else if meth \<noteq> ''S256''
            then Inl (oauth_err invalid_request ''code_challenge_method must be S256'')
          else if res \<noteq> mcpResource config
            then Inl (oauth_err invalid_request ''resource must match MCP_RESOURCE'')
          else if scope_words query = []
            then Inl (oauth_err invalid_request ''scope is required'')
          else if \<not> set (scope_words query) \<subseteq> set SCOPES_SUPPORTED
            then Inl (oauth_err invalid_request ''Requested scope is not supported'')
          else Inr (\<lparr>req_response_type = ''code'', req_client_id = cid,
                      req_redirect_uri = ruri,
                      req_scope = join '' '' (normalizeScopes (scope_words query)),
                      req_state = (case query_param query ''state'' of
                                     None \<Rightarrow> [] | Some s \<Rightarrow> s),
                      req_code_challenge = chal, req_code_challenge_method = ''S256'',
                      req_resource = res,
                      req_scopes = normalizeScopes (scope_words query)\<rparr>, cl))"
proof -
  have e: "(length (normalizeScopes (scope_words query)) = 0) = (scope_words query = [])"
    unfolding scope_words_def by (rule normalizeScopes_empty_iff)
  have s: "set (normalizeScopes (scope_words query)) = set (scope_words query)"
    unfolding scope_words_def by (rule normalizeScopes_parse_set)
  show ?thesis
    unfolding validateAuthorizeRequest_def Let_def
    unfolding query_param_def [symmetric]
    unfolding scope_words_def [symmetric]
    using assms
    by (cases client) (simp_all add: e e [simplified] s isSubsetOfSupportedScopes_iff cong: if_cong)
qed

lemma sample_query_bad_fails:
  "spec_authorize_failure sample_query_bad sample_config (Some sample_client)
     = Some (invalid_request, ''redirect_uri not allowed for this client'')"
  by (simp add: spec_authorize_failure_def sample_query_bad_def query_param_def missing_def
      sample_client_def)

lemma sample_query_words:
  "scope_words sample_query = [''notes:read'', ''profile:read'', ''notes:read'']"
  by code_simp

lemma sample_query_passes:
  "spec_authorize_failure sample_query sample_config (Some sample_client) = None"
  unfolding spec_authorize_failure_def sample_query_words
  by (simp add: sample_query_def query_param_def missing_def sample_client_def
      sample_config_def SCOPES_SUPPORTED_def)

text \<open>
  Claim C6. \<open>validateAuthorizeRequest\<close> returns the error of the first check that fails,
  in the order of \<open>spec_authorize_failure\<close>: \<open>response_type\<close> other than \<open>code\<close>
  (\<open>invalid_request\<close>); one of \<open>client_id\<close>, \<open>redirect_uri\<close>, \<open>code_challenge\<close>,
  \<open>code_challenge_method\<close>, \<open>resource\<close> missing (\<open>invalid_request\<close>); no client
  resolved (\<open>unauthorized_client\<close>); \<open>redirect_uri\<close> not registered for the client;
  method other than \<open>S256\<close>; resource other than the configured one; scope empty or
  with a value outside the vocabulary (each \<open>invalid_request\<close>). Otherwise it succeeds,
  and the scopes of the validated request are the requested ones, sorted and without
  duplicates.
\<close>

theorem authorize_check_order:
  "(case spec_authorize_failure query config client of
      Some (c, d) \<Rightarrow>
        validateAuthorizeRequest query config client
          = Inl \<lparr>error = c, error_description = Some d\<rparr>
    | None \<Rightarrow>
        (\<exists>r cl. validateAuthorizeRequest query config client = Inr (r, cl)
           \<and> client = Some cl
           \<and> sorted (req_scopes r) \<and> distinct (req_scopes r)
           \<and> set (req_scopes r) = set (scope_words query)
           \<and> req_scopes r \<noteq> [] \<and> set (req_scopes r) \<subseteq> set SCOPES_SUPPORTED
           \<and> req_scope r = join '' '' (req_scopes r)
           \<and> Some (req_client_id r) = query_param query ''client_id''
           \<and> Some (req_redirect_uri r) = query_param query ''redirect_uri''
           \<and> req_redirect_uri r \<in> set (redirect_uris cl)
           \<and> Some (req_code_challenge r) = query_param query ''code_challenge''
           \<and> req_code_challenge_method r = ''S256''
           \<and> req_resource r = mcpResource config))"
proof (cases "query_param query ''response_type'' = Some ''code''")
  case False
  then show ?thesis
    by (simp add: spec_authorize_failure_def validateAuthorizeRequest_def query_param_def
        oauth_err_def Let_def)
next
  case rt: True
  show ?thesis
  proof (cases "missing (query_param query ''client_id'')
         \<or> missing (query_param query ''redirect_uri'')
         \<or> missing (query_param query ''code_challenge'')
         \<or> missing (query_param query ''code_challenge_method'')
         \<or> missing (query_param query ''resource'')")
    case True
    from validate_missing [OF rt True] rt True show ?thesis
      by (simp add: spec_authorize_failure_def)
  next
    case False
    then obtain cid ruri chal meth res where p:
      "query_param query ''client_id'' = Some cid" "cid \<noteq> []"
      "query_param query ''redirect_uri'' = Some ruri" "ruri \<noteq> []"
      "query_param query ''code_challenge'' = Some chal" "chal \<noteq> []"
      "query_param query ''code_challenge_method'' = Some meth" "meth \<noteq> []"
      "query_param query ''resource'' = Some res" "res \<noteq> []"
      by (auto simp: missing_def)
    have sp: "spec_authorize_failure query config client =
       (case client of
          None \<Rightarrow> Some (unauthorized_client, ''Unknown client_id'')
        | Some cl \<Rightarrow>
            if ruri \<notin> set (redirect_uris cl)
              then Some (invalid_request, ''redirect_uri not allowed for this client'')
            else if meth \<noteq> ''S256''
              then Some (invalid_request, ''code_challenge_method must be S256'')
            else if res \<noteq> mcpResource config
              then Some (invalid_request, ''resource must match MCP_RESOURCE'')
            else if scope_words query = []
              then Some (invalid_request, ''scope is required'')
            else if \<not> set (scope_words query) \<subseteq> set SCOPES_SUPPORTED
              then Some (invalid_request, ''Requested scope is not supported'')
            else None)"
      using rt p by (auto simp: spec_authorize_failure_def missing_def split: option.split)
    have ns: "set (normalizeScopes (scope_words query)) = set (scope_words query)"
      by (simp add: scope_words_def normalizeScopes_parse_set)
    show ?thesis
    proof (cases client)
      case None
      then show ?thesis
        unfolding sp validate_present [OF rt p] by (simp add: oauth_err_def)
    next
      case (Some cl)
      then show ?thesis
        unfolding sp validate_present [OF rt p]
        by (simp add: oauth_err_def p ns normalizeScopes_sorted normalizeScopes_distinct
            flip: set_empty)
    qed
  qed
qed

theorem authorize_check_order_witness:
  "validateAuthorizeRequest sample_query_bad sample_config (Some sample_client)
     = Inl \<lparr>error = invalid_request,
            error_description = Some ''redirect_uri not allowed for this client''\<rparr>
   \<and> (\<exists>r. validateAuthorizeRequest sample_query sample_config (Some sample_client)
              = Inr (r, sample_client)
          \<and> sorted (req_scopes r) \<and> distinct (req_scopes r)
          \<and> set (req_scopes r) = {''notes:read'', ''profile:read''})"
proof
  from authorize_check_order [of sample_query_bad sample_config "Some sample_client"]
  show "validateAuthorizeRequest sample_query_bad sample_config (Some sample_client)
     = Inl \<lparr>error = invalid_request,
            error_description = Some ''redirect_uri not allowed for this client''\<rparr>"
    unfolding sample_query_bad_fails by simp
next
  from authorize_check_order [of sample_query sample_config "Some sample_client"]
  obtain r where "validateAuthorizeRequest sample_query sample_config (Some sample_client)
              = Inr (r, sample_client)"
     "sorted (req_scopes r)" "distinct (req_scopes r)"
     "set (req_scopes r) = set (scope_words sample_query)"
    unfolding sample_query_passes by auto
  then show "\<exists>r. validateAuthorizeRequest sample_query sample_config (Some sample_client)
              = Inr (r, sample_client)
          \<and> sorted (req_scopes r) \<and> distinct (req_scopes r)
          \<and> set (req_scopes r) = {''notes:read'', ''profile:read''}"
    unfolding sample_query_words by auto
qed

subsection \<open>Reading the bearer token\<close>

lemma trim_all_space:
  assumes "list_all is_space s"
  shows "trim s = []"
proof -
  from assms have d: "dropWhile is_space s = []" by (induction s) auto
  show ?thesis unfolding trim_def d by simp
qed

lemma trim_nonempty:
  assumes "s \<noteq> []" "\<not> is_space (hd s)"
  shows "trim s \<noteq> []"
proof -
  from assms have d: "dropWhile is_space s = s" by (cases s) auto
  from assms have "hd s \<in> set (rev s)" by simp
  with assms(2) have "dropWhile is_space (rev s) \<noteq> []"
    by (auto simp: dropWhile_eq_Nil_conv)
  then show ?thesis by (simp add: trim_def d)
qed

lemma find_first:
  "P x \<Longrightarrow> List.find P (x # xs) = Some x"
  by simp

lemma find_in: "List.find P xs = Some g \<Longrightarrow> g \<in> set xs \<and> P g"
  by (induction xs) (auto split: if_splits)

lemma match_Bearer_form:
  assumes "bearer_form h"
  shows "match_Bearer h = Some (dropWhile is_space (drop 6 h))"
proof -
  let ?rest = "drop 6 h"
  let ?k = "length (takeWhile is_space ?rest)"
  from assms have k: "0 < ?k" by (simp add: bearer_form_def)
  then have "rev [1..<Suc ?k] = ?k # rev [1..<?k]"
    by (cases ?k) simp_all
  moreover have "drop ?k ?rest = dropWhile is_space ?rest"
    by (rule dropWhile_eq_drop [symmetric])
  ultimately show ?thesis
    using assms by (simp add: match_Bearer_def bearer_form_def Let_def)
qed

lemma match_Bearer_not_form:
  assumes "\<not> bearer_form h" "match_Bearer h = Some g"
  shows "trim g = []"
proof -
  let ?rest = "drop 6 h"
  let ?ws = "takeWhile is_space ?rest"
  let ?tok = "dropWhile is_space ?rest"
  let ?k = "length ?ws"
  from assms(2) have pre: "map ascii_upper (take 6 h) = ''BEARER''"
    by (auto simp: match_Bearer_def split: if_splits)
  with assms(2) have
    "List.find (\<lambda>g. g \<noteq> [] \<and> list_all (\<lambda>c. \<not> is_line_terminator c) g)
       (map (\<lambda>n. drop n ?rest) (rev [1..<Suc ?k])) = Some g"
    by (simp add: match_Bearer_def Let_def)
  from find_in [OF this] obtain n where n: "1 \<le> n" "n \<le> ?k" "g = drop n ?rest"
      and g: "g \<noteq> []" "list_all (\<lambda>c. \<not> is_line_terminator c) g"
    by auto
  have "?rest = ?ws @ ?tok" by simp
  then have "drop n ?rest = drop n ?ws @ ?tok"
    using n(2) by (metis drop_append diff_is_0_eq drop0)
  with n(3) have gs: "g = drop n ?ws @ ?tok" by simp
  from n(1,2) have "?ws \<noteq> []" by auto
  with assms(1) pre have "?tok = [] \<or> \<not> list_all (\<lambda>c. \<not> is_line_terminator c) ?tok"
    by (auto simp: bearer_form_def)
  with g(2) gs have "?tok = []" by auto
  with gs have "g = drop n ?ws" by simp
  moreover have "list_all is_space (drop n ?ws)"
    by (auto simp: list_all_iff dest: in_set_dropD set_takeWhileD)
  ultimately show ?thesis by (simp add: trim_all_space)
qed

lemma parseBearer_char:
  "parseBearerTokenFromHeader (Some h) =
     (if bearer_form h then Some (trim (dropWhile is_space (drop 6 h))) else None)"
proof (cases "bearer_form h")
  case True
  then have ne: "h \<noteq> []" by (auto simp: bearer_form_def)
  from True have t: "dropWhile is_space (drop 6 h) \<noteq> []" by (simp add: bearer_form_def)
  then have "\<not> is_space (hd (dropWhile is_space (drop 6 h)))" by (rule hd_dropWhile)
  from trim_nonempty [OF t this] True ne show ?thesis
    by (simp add: parseBearerTokenFromHeader_def match_Bearer_form)
next
  case False
  then show ?thesis
    by (auto simp: parseBearerTokenFromHeader_def dest: match_Bearer_not_form split: option.splits)
qed


lemma verifyBearer_none_iff:
  "(verifyBearerFromRequest lib nowSec env header = Inr VNone)
     = (parseBearerTokenFromHeader header = None)"
  by (auto simp: verifyBearerFromRequest_def split: option.splits sum.splits)

lemma bearer_form_case_insensitive:
  assumes "length pre = 6" "map ascii_upper pre = ''BEARER''"
  shows "bearer_form (pre @ rest) = bearer_form (''Bearer'' @ rest)"
proof -
  have u: "map ascii_upper ''Bearer'' = ''BEARER''" by code_simp
  have "take 6 (''Bearer'' @ rest) = ''Bearer''" "drop 6 (''Bearer'' @ rest) = rest" by simp_all
  moreover from assms(1) have "take 6 (pre @ rest) = pre" "drop 6 (pre @ rest) = rest" by simp_all
  ultimately show ?thesis using assms(2) u by (simp only: bearer_form_def)
qed

lemma sample_not_bearer:
  "\<not> bearer_form ''Basic dXNlcjpwYXNz'' \<and> \<not> bearer_form ''Bearer''
   \<and> \<not> bearer_form ''bearer   '' \<and> \<not> bearer_form ''Bearertoken''"
  by code_simp

text \<open>
  Claim C10. \<open>verifyBearerFromRequest\<close> returns the status \<open>none\<close> exactly when the
  \<open>Authorization\<close> header is absent or is not of the form \<open>Bearer <token>\<close> with a
  non-empty token: another scheme, the bare keyword, or the keyword followed by white
  space only are classified as a request without credentials, never as \<open>invalid\<close>.
  The keyword is matched in any case: a header gives what the same header with the
  keyword written \<open>Bearer\<close> gives.
\<close>

theorem bearer_header_classification:
  "(verifyBearerFromRequest lib nowSec env header = Inr VNone)
     = (case header of None \<Rightarrow> True | Some h \<Rightarrow> \<not> bearer_form h)
   \<and> (length pre = 6 \<and> map ascii_upper pre = ''BEARER''
        \<longrightarrow> verifyBearerFromRequest lib nowSec env (Some (pre @ rest))
            = verifyBearerFromRequest lib nowSec env (Some (''Bearer'' @ rest)))"
proof (intro conjI impI)
  show "(verifyBearerFromRequest lib nowSec env header = Inr VNone)
     = (case header of None \<Rightarrow> True | Some h \<Rightarrow> \<not> bearer_form h)"
  proof (cases header)
    case None
    then show ?thesis by (simp add: verifyBearer_none_iff parseBearerTokenFromHeader_def)
  next
    case (Some h)
    then show ?thesis by (simp add: verifyBearer_none_iff parseBearer_char)
  qed
next
  assume a: "length pre = 6 \<and> map ascii_upper pre = ''BEARER''"
  then have f: "bearer_form (pre @ rest) = bearer_form (''Bearer'' @ rest)"
    by (simp add: bearer_form_case_insensitive)
  from a have "parseBearerTokenFromHeader (Some (pre @ rest))
      = parseBearerTokenFromHeader (Some (''Bearer'' @ rest))"
    unfolding parseBearer_char f by simp
  then show "verifyBearerFromRequest lib nowSec env (Some (pre @ rest))
            = verifyBearerFromRequest lib nowSec env (Some (''Bearer'' @ rest))"
    by (simp add: verifyBearerFromRequest_def)
qed

theorem bearer_header_classification_witness:
  "verifyBearerFromRequest sample_lib 100 Map.empty None = Inr VNone
   \<and> verifyBearerFromRequest sample_lib 100 Map.empty (Some ''Basic dXNlcjpwYXNz'') = Inr VNone
   \<and> verifyBearerFromRequest sample_lib 100 Map.empty (Some ''Bearer'') = Inr VNone
   \<and> verifyBearerFromRequest sample_lib 100 Map.empty (Some ''bearer   '') = Inr VNone
   \<and> verifyBearerFromRequest sample_lib 100 Map.empty (Some (''bEaReR'' @ '' abc''))
       = verifyBearerFromRequest sample_lib 100 Map.empty (Some (''Bearer'' @ '' abc''))"
proof -
  note c = bearer_header_classification [of sample_lib 100 Map.empty]
  have u: "length ''bEaReR'' = 6 \<and> map ascii_upper ''bEaReR'' = ''BEARER''" by code_simp
  from c [of None] have 1: "verifyBearerFromRequest sample_lib 100 Map.empty None = Inr VNone"
    by simp
  from c [of "Some ''Basic dXNlcjpwYXNz''"] sample_not_bearer
  have 2: "verifyBearerFromRequest sample_lib 100 Map.empty (Some ''Basic dXNlcjpwYXNz'') = Inr VNone"
    by simp
  from c [of "Some ''Bearer''"] sample_not_bearer
  have 3: "verifyBearerFromRequest sample_lib 100 Map.empty (Some ''Bearer'') = Inr VNone"
    by simp
  from c [of "Some ''bearer   ''"] sample_not_bearer
  have 4: "verifyBearerFromRequest sample_lib 100 Map.empty (Some ''bearer   '') = Inr VNone"
    by simp
  from c [of None "''bEaReR''" "'' abc''"] u
  have 5: "verifyBearerFromRequest sample_lib 100 Map.empty (Some (''bEaReR'' @ '' abc''))
       = verifyBearerFromRequest sample_lib 100 Map.empty (Some (''Bearer'' @ '' abc''))"
    by blast
  from 1 2 3 4 5 show ?thesis by blast
qed

subsection \<open>The guard of the resource server\<close>























subsection \<open>Verifying an access token\<close>

lemma jwt_verify_Inr:
  "(jwt_verify lib nowSec tok secret algorithms opt_issuer opt_audience = Inr pl) =
     (\<exists>d. jws_decode lib tok = Some d \<and> pl = jws_payload d
        \<and> jws_alg d \<in> set algorithms
        \<and> jws_signature d = hmac_sha256 lib secret (jws_signing_input d)
        \<and> exp_not_elapsed nowSec (jws_payload d)
        \<and> aud_matches opt_audience (jws_payload d)
        \<and> prop_of (Some (jws_payload d)) ''iss'' = Some (JStr opt_issuer))"
  by (auto simp: jwt_verify_def split: option.splits)

lemma verifyAccessToken_Inr:
  assumes "verifyAccessToken lib nowSec tok p = Inr cl"
  shows "\<exists>pl. jwt_verify lib nowSec tok (vp_secret p) [''HS256''] (vp_issuer p) (vp_audience p)
               = Inr pl
          \<and> prop_of (Some pl) ''sub'' = Some (JStr (claim_sub cl)) \<and> claim_sub cl \<noteq> []
          \<and> prop_of (Some pl) ''scope'' = Some (JStr (claim_scope cl))
          \<and> prop_of (Some pl) ''iss'' = Some (JStr (claim_iss cl))
          \<and> claim_payload cl = pl"
  using assms
  by (auto simp: verifyAccessToken_def split: sum.splits option.splits json.splits if_splits)

lemma verifyAccessToken_returns:
  assumes "jwt_verify lib nowSec tok (vp_secret p) [''HS256''] (vp_issuer p) (vp_audience p)
             = Inr pl"
    and "prop_of (Some pl) ''sub'' = Some (JStr s)" "s \<noteq> []"
    and "prop_of (Some pl) ''scope'' = Some (JStr sc)"
    and "prop_of (Some pl) ''iss'' = Some (JStr i)"
  shows "\<exists>cl. verifyAccessToken lib nowSec tok p = Inr cl"
proof -
  from assms(2) obtain kvs where "pl = JObj kvs" by (cases pl) simp_all
  with assms show ?thesis
    by (simp add: verifyAccessToken_def is_string_def)
qed

lemma sample_token_verifies:
  "verifyAccessToken sample_lib 1500 ''t.notes'' sample_vp
     = Inr (ctx_claims (sample_ctx ''t.notes'' ''notes:read profile:read''))"
  by code_simp

lemma sample_tokens_rejected:
  "verifyAccessToken sample_lib 1500 ''t.other-aud'' sample_vp = Inl (Error ''jwt audience invalid'')"
  "verifyAccessToken sample_lib 1500 ''t.other-iss'' sample_vp = Inl (Error ''jwt issuer invalid'')"
  "verifyAccessToken sample_lib 1600 ''t.notes'' sample_vp = Inl (Error ''jwt expired'')"
  "verifyAccessToken sample_lib 1500 ''t.notes'' (sample_vp\<lparr>vp_secret := ''guess''\<rparr>)
     = Inl (Error ''invalid signature'')"
  by code_simp+

text \<open>
  Claim C3. \<open>verifyAccessToken\<close> returns claims only when the token is well formed and
  signed with HS256 under the secret, its \<open>exp\<close> has not elapsed, its \<open>iss\<close> is the
  configured issuer, its \<open>aud\<close> is the configured audience (as one string, or as an
  array that holds it), its \<open>sub\<close> is a non-empty string and its \<open>scope\<close> a string;
  a token that fails one of these makes it throw. Conversely it returns claims for every
  token that meets them all. The checks of the signature, \<open>exp\<close>, \<open>iss\<close> and
  \<open>aud\<close> are those of \<open>jwt_verify\<close>, modelled from the specification.
\<close>

theorem verify_access_token_checks:
  "(verifyAccessToken lib nowSec tok p = Inr cl \<longrightarrow>
      (\<exists>d. jws_decode lib tok = Some d
         \<and> jws_alg d = ''HS256''
         \<and> jws_signature d = hmac_sha256 lib (vp_secret p) (jws_signing_input d)
         \<and> exp_not_elapsed nowSec (jws_payload d)
         \<and> prop_of (Some (jws_payload d)) ''iss'' = Some (JStr (vp_issuer p))
         \<and> aud_matches (vp_audience p) (jws_payload d)
         \<and> prop_of (Some (jws_payload d)) ''sub'' = Some (JStr (claim_sub cl))
         \<and> claim_sub cl \<noteq> []
         \<and> prop_of (Some (jws_payload d)) ''scope'' = Some (JStr (claim_scope cl))
         \<and> claim_iss cl = vp_issuer p
         \<and> claim_payload cl = jws_payload d))
   \<and> ((\<exists>d s sc. jws_decode lib tok = Some d
         \<and> jws_alg d = ''HS256''
         \<and> jws_signature d = hmac_sha256 lib (vp_secret p) (jws_signing_input d)
         \<and> exp_not_elapsed nowSec (jws_payload d)
         \<and> prop_of (Some (jws_payload d)) ''iss'' = Some (JStr (vp_issuer p))
         \<and> aud_matches (vp_audience p) (jws_payload d)
         \<and> prop_of (Some (jws_payload d)) ''sub'' = Some (JStr s) \<and> s \<noteq> []
         \<and> prop_of (Some (jws_payload d)) ''scope'' = Some (JStr sc))
        \<longrightarrow> (\<exists>c. verifyAccessToken lib nowSec tok p = Inr c))"
proof (intro conjI impI)
  assume "verifyAccessToken lib nowSec tok p = Inr cl"
  from verifyAccessToken_Inr [OF this] obtain pl where
    v: "jwt_verify lib nowSec tok (vp_secret p) [''HS256''] (vp_issuer p) (vp_audience p) = Inr pl"
    and c: "prop_of (Some pl) ''sub'' = Some (JStr (claim_sub cl))" "claim_sub cl \<noteq> []"
      "prop_of (Some pl) ''scope'' = Some (JStr (claim_scope cl))"
      "prop_of (Some pl) ''iss'' = Some (JStr (claim_iss cl))" "claim_payload cl = pl"
    by blast
  from v obtain d where d: "jws_decode lib tok = Some d" "pl = jws_payload d"
      "jws_alg d \<in> set [''HS256'']"
      "jws_signature d = hmac_sha256 lib (vp_secret p) (jws_signing_input d)"
      "exp_not_elapsed nowSec (jws_payload d)" "aud_matches (vp_audience p) (jws_payload d)"
      "prop_of (Some (jws_payload d)) ''iss'' = Some (JStr (vp_issuer p))"
    unfolding jwt_verify_Inr by blast
  from c(4) d(2,7) have "claim_iss cl = vp_issuer p" by simp
  with c d show "\<exists>d. jws_decode lib tok = Some d
         \<and> jws_alg d = ''HS256''
         \<and> jws_signature d = hmac_sha256 lib (vp_secret p) (jws_signing_input d)
         \<and> exp_not_elapsed nowSec (jws_payload d)
         \<and> prop_of (Some (jws_payload d)) ''iss'' = Some (JStr (vp_issuer p))
         \<and> aud_matches (vp_audience p) (jws_payload d)
         \<and> prop_of (Some (jws_payload d)) ''sub'' = Some (JStr (claim_sub cl))
         \<and> claim_sub cl \<noteq> []
         \<and> prop_of (Some (jws_payload d)) ''scope'' = Some (JStr (claim_scope cl))
         \<and> claim_iss cl = vp_issuer p
         \<and> claim_payload cl = jws_payload d"
    by auto
next
  assume "\<exists>d s sc. jws_decode lib tok = Some d
         \<and> jws_alg d = ''HS256''
         \<and> jws_signature d = hmac_sha256 lib (vp_secret p) (jws_signing_input d)
         \<and> exp_not_elapsed nowSec (jws_payload d)
         \<and> prop_of (Some (jws_payload d)) ''iss'' = Some (JStr (vp_issuer p))
         \<and> aud_matches (vp_audience p) (jws_payload d)
         \<and> prop_of (Some (jws_payload d)) ''sub'' = Some (JStr s) \<and> s \<noteq> []
         \<and> prop_of (Some (jws_payload d)) ''scope'' = Some (JStr sc)"
  then obtain d s sc where d: "jws_decode lib tok = Some d" "jws_alg d = ''HS256''"
      "jws_signature d = hmac_sha256 lib (vp_secret p) (jws_signing_input d)"
      "exp_not_elapsed nowSec (jws_payload d)"
      "prop_of (Some (jws_payload d)) ''iss'' = Some (JStr (vp_issuer p))"
      "aud_matches (vp_audience p) (jws_payload d)"
      "prop_of (Some (jws_payload d)) ''sub'' = Some (JStr s)" "s \<noteq> []"
      "prop_of (Some (jws_payload d)) ''scope'' = Some (JStr sc)"
    by blast
  then have "jwt_verify lib nowSec tok (vp_secret p) [''HS256''] (vp_issuer p) (vp_audience p)
               = Inr (jws_payload d)"
    unfolding jwt_verify_Inr by simp
  from verifyAccessToken_returns [OF this d(7,8,9,5)]
  show "\<exists>c. verifyAccessToken lib nowSec tok p = Inr c" .
qed

theorem verify_access_token_checks_witness:
  "verifyAccessToken sample_lib 1500 ''t.notes'' sample_vp
     = Inr (ctx_claims (sample_ctx ''t.notes'' ''notes:read profile:read''))
   \<and> (\<exists>d. jws_decode sample_lib ''t.notes'' = Some d
         \<and> jws_alg d = ''HS256''
         \<and> jws_signature d = hmac_sha256 sample_lib ''s3cret'' (jws_signing_input d)
         \<and> exp_not_elapsed 1500 (jws_payload d)
         \<and> prop_of (Some (jws_payload d)) ''iss'' = Some (JStr ''http://localhost:4000'')
         \<and> aud_matches ''http://localhost:3000/mcp'' (jws_payload d)
         \<and> prop_of (Some (jws_payload d)) ''sub'' = Some (JStr ''u_123'')
         \<and> prop_of (Some (jws_payload d)) ''scope'' = Some (JStr ''notes:read profile:read''))
   \<and> verifyAccessToken sample_lib 1500 ''t.other-aud'' sample_vp
       = Inl (Error ''jwt audience invalid'')
   \<and> verifyAccessToken sample_lib 1500 ''t.other-iss'' sample_vp
       = Inl (Error ''jwt issuer invalid'')"
proof -
  let ?cl = "ctx_claims (sample_ctx ''t.notes'' ''notes:read profile:read'')"
  have f: "claim_sub ?cl = ''u_123''" "claim_scope ?cl = ''notes:read profile:read''"
      "vp_secret sample_vp = ''s3cret''" "vp_issuer sample_vp = ''http://localhost:4000''"
      "vp_audience sample_vp = ''http://localhost:3000/mcp''"
    by (simp_all add: sample_ctx_def sample_vp_def)
  from verify_access_token_checks [of sample_lib 1500 "''t.notes''" sample_vp ?cl]
    sample_token_verifies
  have "\<exists>d. jws_decode sample_lib ''t.notes'' = Some d
         \<and> jws_alg d = ''HS256''
         \<and> jws_signature d = hmac_sha256 sample_lib ''s3cret'' (jws_signing_input d)
         \<and> exp_not_elapsed 1500 (jws_payload d)
         \<and> prop_of (Some (jws_payload d)) ''iss'' = Some (JStr ''http://localhost:4000'')
         \<and> aud_matches ''http://localhost:3000/mcp'' (jws_payload d)
         \<and> prop_of (Some (jws_payload d)) ''sub'' = Some (JStr ''u_123'')
         \<and> prop_of (Some (jws_payload d)) ''scope'' = Some (JStr ''notes:read profile:read'')"
    unfolding f by blast
  with sample_token_verifies sample_tokens_rejected(1,2) show ?thesis by blast
qed

subsection \<open>Dynamic client registration\<close>

lemma dcr_array_field:
  "(case prop_of (Some (dcr_body rb)) ''redirect_uris'' of
      Some (JArr xs) \<Rightarrow> Some xs | _ \<Rightarrow> None)
   = (if \<exists>xs. prop_of (Some (dcr_body rb)) ''redirect_uris'' = Some (JArr xs)
      then Some (dcr_redirect_uris rb) else None)"
  by (simp add: dcr_redirect_uris_def split: option.split json.split)

lemma dcr_not_array:
  "\<not> (\<exists>xs. prop_of (Some (dcr_body rb)) ''redirect_uris'' = Some (JArr xs))
     \<Longrightarrow> dcr_redirect_uris rb = []"
  by (simp add: dcr_redirect_uris_def split: option.split json.split)

lemma dcr_auth_field:
  "(case prop_of (Some (dcr_body rb)) ''token_endpoint_auth_method'' of
      Some (JStr m) \<Rightarrow> m | _ \<Rightarrow> ''none'')
   = (case dcr_auth_method rb of None \<Rightarrow> ''none'' | Some m \<Rightarrow> m)"
  by (simp add: dcr_auth_method_def split: option.split json.split)

lemma dcr_name_field:
  "(case prop_of (Some (dcr_body rb)) ''client_name'' of
      Some (JStr n) \<Rightarrow> n | _ \<Rightarrow> ''ChatGPT Connector'') = dcr_client_name rb"
  by (simp add: dcr_client_name_def)

lemma dcr_kept_field:
  "filter_Boolean (map trimmed_string (dcr_redirect_uris rb)) = dcr_kept rb"
  by (simp add: dcr_kept_def filter_Boolean_def)

lemma register_client_unfold:
  "register_client fresh_id now config rb st =
     (if dcr_rejected config rb then
        (jsonError 400 (JObj [(''error'', JStr ''invalid_client_metadata'')]), st)
      else
        (\<lparr>status = 201, headers = [''cache-control'' \<mapsto> ''no-store''],
          body = JObj [(''client_id'', JStr fresh_id),
                       (''client_name'', JStr (dcr_client_name rb)),
                       (''redirect_uris'', JArr (map JStr (dcr_kept rb))),
                       (''token_endpoint_auth_method'', JStr ''none'')]\<rparr>,
         snd (createClient fresh_id now None (dcr_client_name rb) (dcr_kept rb) ''none'' st)))"
proof -
  have r: "register_client fresh_id now config rb st =
     (case (if \<exists>xs. prop_of (Some (dcr_body rb)) ''redirect_uris'' = Some (JArr xs)
            then Some (dcr_redirect_uris rb) else None) of
        None \<Rightarrow> (jsonError 400 (JObj [(''error'', JStr ''invalid_client_metadata'')]), st)
      | Some uris \<Rightarrow>
          if length uris = 0
            then (jsonError 400 (JObj [(''error'', JStr ''invalid_client_metadata'')]), st)
          else if (case dcr_auth_method rb of None \<Rightarrow> ''none'' | Some m \<Rightarrow> m) \<noteq> ''none''
            then (jsonError 400 (JObj [(''error'', JStr ''invalid_client_metadata'')]), st)
          else
            (let normalized = filter_Boolean (map trimmed_string uris)
             in if length normalized = 0
                  then (jsonError 400 (JObj [(''error'', JStr ''invalid_client_metadata'')]), st)
                else if \<not> list_all (\<lambda>uri. has (allowedRedirectUris config) uri) normalized
                  then (jsonError 400 (JObj [(''error'', JStr ''invalid_client_metadata'')]), st)
                else
                  (let (client, st') =
                         createClient fresh_id now None (dcr_client_name rb) normalized ''none'' st
                   in (\<lparr>status = 201, headers = [''cache-control'' \<mapsto> ''no-store''],
                        body = JObj [(''client_id'', JStr (client_id client)),
                                     (''client_name'', JStr (client_name client)),
                                     (''redirect_uris'', JArr (map JStr (redirect_uris client))),
                                     (''token_endpoint_auth_method'',
                                      JStr (token_endpoint_auth_method client))]\<rparr>,
                       st'))))"
    unfolding register_client_def Let_def
    unfolding dcr_body_def [symmetric]
    unfolding dcr_array_field dcr_auth_field dcr_name_field
    by (rule refl)
  show ?thesis
  proof (cases "\<exists>xs. prop_of (Some (dcr_body rb)) ''redirect_uris'' = Some (JArr xs)")
    case False
    then show ?thesis by (simp add: r dcr_rejected_def dcr_not_array)
  next
    case True
    then show ?thesis
      unfolding r
      by (auto simp: dcr_rejected_def dcr_kept_field Let_def list_all_iff has_def
          createClient_def split: option.split)
  qed
qed

lemma sample_registrations:
  "dcr_rejected sample_config (Some sample_registration_bad)"
  "\<not> dcr_rejected sample_config (Some sample_registration_ok)"
  "\<not> dcr_rejected sample_config (Some sample_registration)"
  "dcr_kept (Some sample_registration_ok) = [''https://example-client.test/cb'']"
  "dcr_kept (Some sample_registration) = [''https://example-client.test/cb'']"
  by code_simp+

text \<open>
  Claim C8, as amended. The registration endpoint answers 400 with
  \<open>invalid_client_metadata\<close> when \<open>redirect_uris\<close> is absent, not an array or empty;
  when \<open>token_endpoint_auth_method\<close> is a string other than \<open>none\<close>; when no entry is
  left once the entries that are not strings or are blank have been dropped; or when one
  of the entries kept, trimmed, is not in the configured allow-list. Otherwise it stores
  a public client with the kept entries and answers 201 with the client object. The
  handler validates a redirect URI by the allow-list alone. As stated, with a rejection
  for any entry that is not a valid URI or not in the allow-list, the claim fails for a
  request that has a blank entry beside an allowed one.
\<close>

theorem register_client_responses:
  "(dcr_rejected config rb \<longrightarrow>
      register_client fresh_id now config rb st
        = (jsonError 400 (JObj [(''error'', JStr ''invalid_client_metadata'')]), st))
   \<and> (\<not> dcr_rejected config rb \<longrightarrow>
        (\<exists>client.
           register_client fresh_id now config rb st
             = (\<lparr>status = 201, headers = [''cache-control'' \<mapsto> ''no-store''],
                 body = JObj [(''client_id'', JStr (client_id client)),
                              (''client_name'', JStr (client_name client)),
                              (''redirect_uris'', JArr (map JStr (redirect_uris client))),
                              (''token_endpoint_auth_method'',
                               JStr (token_endpoint_auth_method client))]\<rparr>,
                st\<lparr>clientsById := (clientsById st)(fresh_id \<mapsto> client)\<rparr>)
           \<and> client_id client = fresh_id
           \<and> client_name client = dcr_client_name rb
           \<and> redirect_uris client = dcr_kept rb
           \<and> redirect_uris client \<noteq> []
           \<and> set (redirect_uris client) \<subseteq> set (allowedRedirectUris config)
           \<and> token_endpoint_auth_method client = ''none''))"
proof (intro conjI impI)
  assume "dcr_rejected config rb"
  then show "register_client fresh_id now config rb st
        = (jsonError 400 (JObj [(''error'', JStr ''invalid_client_metadata'')]), st)"
    by (simp add: register_client_unfold)
next
  assume ok: "\<not> dcr_rejected config rb"
  let ?c = "fst (createClient fresh_id now None (dcr_client_name rb) (dcr_kept rb) ''none'' st)"
  from ok have k: "dcr_kept rb \<noteq> []" "set (dcr_kept rb) \<subseteq> set (allowedRedirectUris config)"
    by (auto simp: dcr_rejected_def)
  have c: "client_id ?c = fresh_id" "client_name ?c = dcr_client_name rb"
      "redirect_uris ?c = dcr_kept rb" "token_endpoint_auth_method ?c = ''none''"
    by (simp_all add: createClient_def Let_def)
  have s: "snd (createClient fresh_id now None (dcr_client_name rb) (dcr_kept rb) ''none'' st)
             = st\<lparr>clientsById := (clientsById st)(fresh_id \<mapsto> ?c)\<rparr>"
    by (simp add: createClient_def Let_def)
  show "\<exists>client.
           register_client fresh_id now config rb st
             = (\<lparr>status = 201, headers = [''cache-control'' \<mapsto> ''no-store''],
                 body = JObj [(''client_id'', JStr (client_id client)),
                              (''client_name'', JStr (client_name client)),
                              (''redirect_uris'', JArr (map JStr (redirect_uris client))),
                              (''token_endpoint_auth_method'',
                               JStr (token_endpoint_auth_method client))]\<rparr>,
                st\<lparr>clientsById := (clientsById st)(fresh_id \<mapsto> client)\<rparr>)
           \<and> client_id client = fresh_id
           \<and> client_name client = dcr_client_name rb
           \<and> redirect_uris client = dcr_kept rb
           \<and> redirect_uris client \<noteq> []
           \<and> set (redirect_uris client) \<subseteq> set (allowedRedirectUris config)
           \<and> token_endpoint_auth_method client = ''none''"
    apply (rule exI [of _ ?c])
    using ok k by (simp add: register_client_unfold c s)
qed

theorem register_client_responses_witness:
  "register_client ''c_9'' 5000 sample_config (Some sample_registration_bad) sample_store
     = (jsonError 400 (JObj [(''error'', JStr ''invalid_client_metadata'')]), sample_store)
   \<and> (\<exists>client st'.
        register_client ''c_9'' 5000 sample_config (Some sample_registration_ok) sample_store
          = (\<lparr>status = 201, headers = [''cache-control'' \<mapsto> ''no-store''],
              body = JObj [(''client_id'', JStr ''c_9''),
                           (''client_name'', JStr (client_name client)),
                           (''redirect_uris'', JArr [JStr ''https://example-client.test/cb'']),
                           (''token_endpoint_auth_method'', JStr ''none'')]\<rparr>, st')
        \<and> clientsById st' ''c_9'' = Some client)"
proof
  from register_client_responses [of sample_config "Some sample_registration_bad" "''c_9''" 5000
      sample_store] sample_registrations(1)
  show "register_client ''c_9'' 5000 sample_config (Some sample_registration_bad) sample_store
     = (jsonError 400 (JObj [(''error'', JStr ''invalid_client_metadata'')]), sample_store)"
    by blast
next
  from register_client_responses [of sample_config "Some sample_registration_ok" "''c_9''" 5000
      sample_store] sample_registrations(2)
  obtain client where c:
    "register_client ''c_9'' 5000 sample_config (Some sample_registration_ok) sample_store
       = (\<lparr>status = 201, headers = [''cache-control'' \<mapsto> ''no-store''],
           body = JObj [(''client_id'', JStr (client_id client)),
                        (''client_name'', JStr (client_name client)),
                        (''redirect_uris'', JArr (map JStr (redirect_uris client))),
                        (''token_endpoint_auth_method'',
                         JStr (token_endpoint_auth_method client))]\<rparr>,
          sample_store\<lparr>clientsById := (clientsById sample_store)(''c_9'' \<mapsto> client)\<rparr>)"
    "client_id client = ''c_9''"
    "redirect_uris client = dcr_kept (Some sample_registration_ok)"
    "token_endpoint_auth_method client = ''none''"
    by blast
  show "\<exists>client st'.
        register_client ''c_9'' 5000 sample_config (Some sample_registration_ok) sample_store
          = (\<lparr>status = 201, headers = [''cache-control'' \<mapsto> ''no-store''],
              body = JObj [(''client_id'', JStr ''c_9''),
                           (''client_name'', JStr (client_name client)),
                           (''redirect_uris'', JArr [JStr ''https://example-client.test/cb'']),
                           (''token_endpoint_auth_method'', JStr ''none'')]\<rparr>, st')
        \<and> clientsById st' ''c_9'' = Some client"
    apply (rule exI [of _ client])
    apply (rule exI [of _ "sample_store\<lparr>clientsById := (clientsById sample_store)(''c_9'' \<mapsto> client)\<rparr>"])
    using c by (simp add: sample_registrations(4))
qed

theorem register_client_responses_counterexample:
  "JStr ''  '' \<in> set (dcr_redirect_uris (Some sample_registration))
   \<and> ''  '' \<notin> set (allowedRedirectUris sample_config)
   \<and> \<not> isValidRedirectUri URL_lite ''  ''
   \<and> prop_of (Some sample_registration) ''token_endpoint_auth_method'' = Some (JNum 5)
   \<and> status (fst (register_client ''c_9'' 5000 sample_config (Some sample_registration)
                  sample_store)) = 201"
proof -
  have "status (fst (register_client ''c_9'' 5000 sample_config (Some sample_registration)
                  sample_store)) = 201"
    by (simp add: register_client_unfold sample_registrations(3))
  moreover have "JStr ''  '' \<in> set (dcr_redirect_uris (Some sample_registration))"
    by (simp add: dcr_redirect_uris_def dcr_body_def sample_registration_def)
  moreover have "''  '' \<notin> set (allowedRedirectUris sample_config)"
    by (simp add: sample_config_def)
  moreover have "\<not> isValidRedirectUri URL_lite ''  ''" by code_simp
  moreover have "prop_of (Some sample_registration) ''token_endpoint_auth_method'' = Some (JNum 5)"
    by (simp add: sample_registration_def)
  ultimately show ?thesis by (intro conjI)
qed

subsection \<open>Clients named by a metadata URL\<close>

lemma sample_metadata_url:
  "tryParseAllowedClientMetadataUrl URL_lite ''https://example.com/client.json''
     (allowedClientMetadataHosts sample_config)
   = Some \<lparr>href = ''https://example.com/client.json'', protocol = ''https:'',
            hostname = ''example.com'', pathname = ''/client.json'', hash = []\<rparr>"
  by code_simp

text \<open>
  Claim C7, as amended. \<open>resolveClientFromClientIdMetadataUrl\<close> returns no client, and
  leaves the store as it was, for every fetched document whose declared \<open>client_id\<close>
  does not parse as a URL or parses to a URL whose \<open>href\<close> differs from the canonical
  URL the document was fetched from, however well formed the document is otherwise. The
  comparison is between canonical forms (the code's comment asks for semantic equality):
  as stated, with the declared string itself compared, the claim fails for a document
  that declares the canonical URL in another spelling, such as an upper-case host.
\<close>

theorem metadata_client_pinning:
  assumes "tryParseAllowedClientMetadataUrl P cid (allowedClientMetadataHosts config) = Some u"
      and "fetchDoc (href u) = Some doc"
      and "case P (doc_client_id doc) of None \<Rightarrow> True | Some claimed \<Rightarrow> href claimed \<noteq> href u"
  shows "resolveClientFromClientIdMetadataUrl P fetchDoc isDev now config cid
           requestedRedirectUri st = (None, st)"
  using assms
  by (simp add: resolveClientFromClientIdMetadataUrl_def split: option.splits)

theorem metadata_client_pinning_witness:
  "(case URL_lite (doc_client_id (sample_doc ''https://evil.test/client.json'')) of
      None \<Rightarrow> True
    | Some claimed \<Rightarrow> href claimed \<noteq> ''https://example.com/client.json'')
   \<and> resolveClientFromClientIdMetadataUrl URL_lite
        (sample_fetch ''https://evil.test/client.json'') False 7000 sample_config
        ''https://example.com/client.json'' (Some ''https://example-client.test/cb'')
        sample_store
      = (None, sample_store)"
proof -
  let ?u = "\<lparr>href = ''https://example.com/client.json'', protocol = ''https:'',
            hostname = ''example.com'', pathname = ''/client.json'', hash = []\<rparr>"
  have f: "sample_fetch ''https://evil.test/client.json'' (href ?u)
             = Some (sample_doc ''https://evil.test/client.json'')"
    by (simp add: sample_fetch_def)
  have d: "case URL_lite (doc_client_id (sample_doc ''https://evil.test/client.json'')) of
             None \<Rightarrow> True
           | Some claimed \<Rightarrow> href claimed \<noteq> ''https://example.com/client.json''"
    by code_simp
  have d': "case URL_lite (doc_client_id (sample_doc ''https://evil.test/client.json'')) of
             None \<Rightarrow> True
           | Some claimed \<Rightarrow> href claimed \<noteq> href ?u"
    by code_simp
  from metadata_client_pinning [where P = URL_lite
      and fetchDoc = "sample_fetch ''https://evil.test/client.json''" and u = ?u
      and doc = "sample_doc ''https://evil.test/client.json''", OF sample_metadata_url f d'] d
  show ?thesis by blast
qed

theorem metadata_client_pinning_counterexample:
  "parseClientMetadataDocument URL_lite
       (Some (sample_metadata ''https://EXAMPLE.com/client.json''))
     = Some (sample_doc ''https://EXAMPLE.com/client.json'')
   \<and> doc_client_id (sample_doc ''https://EXAMPLE.com/client.json'')
       \<noteq> ''https://example.com/client.json''
   \<and> fst (resolveClientFromClientIdMetadataUrl URL_lite
          (sample_fetch ''https://EXAMPLE.com/client.json'') False 7000 sample_config
          ''https://example.com/client.json'' (Some ''https://example-client.test/cb'')
          sample_store)
     = Some \<lparr>client_id = ''https://example.com/client.json'', client_name = ''Example'',
             redirect_uris = [''https://example-client.test/cb''],
             token_endpoint_auth_method = ''none'', created_at = 7000\<rparr>"
  by code_simp

end
